theory Spec2Isabelle
  imports Complex_Main
begin

section \<open>Python values and string helpers\<close>

text \<open>
  Strings are lists of characters. \<open>str.lower\<close>, \<open>str.strip\<close> and \<open>str.replace\<close> are
  modelled on the ASCII range; other characters are left as they are.
\<close>

definition lower_char :: "char \<Rightarrow> char" where
  "lower_char c =
     (case map_of (zip ''ABCDEFGHIJKLMNOPQRSTUVWXYZ'' ''abcdefghijklmnopqrstuvwxyz'') c of
        Some d \<Rightarrow> d
      | None \<Rightarrow> c)"

definition py_lower :: "string \<Rightarrow> string" where
  "py_lower s = map lower_char s"

definition is_space :: "char \<Rightarrow> bool" where
  "is_space c =
     (c \<in> set [CHR 0x09, CHR 0x0A, CHR 0x0B, CHR 0x0C, CHR 0x0D,
                CHR 0x1C, CHR 0x1D, CHR 0x1E, CHR 0x1F, CHR '' ''])"

definition py_strip :: "string \<Rightarrow> string" where
  "py_strip s = rev (dropWhile is_space (rev (dropWhile is_space s)))"

definition py_replace_char :: "char \<Rightarrow> char \<Rightarrow> string \<Rightarrow> string" where
  "py_replace_char a b s = map (\<lambda>c. if c = a then b else c) s"

fun startswith :: "string \<Rightarrow> string \<Rightarrow> bool" where
  "startswith s [] = True"
| "startswith [] (p # ps) = False"
| "startswith (c # cs) (p # ps) = (c = p \<and> startswith cs ps)"

text \<open>\<open>py_in kw s\<close> is Python's \<open>kw in s\<close> on strings: \<open>kw\<close> occurs in \<open>s\<close>.\<close>

fun py_in :: "string \<Rightarrow> string \<Rightarrow> bool" where
  "py_in kw [] = (kw = [])"
| "py_in kw (c # cs) = (startswith (c # cs) kw \<or> py_in kw cs)"

text \<open>
  The values \<open>json.loads\<close> produces. A dict keeps its insertion order and has string
  keys, each once; a JSON number with a fraction or an exponent is a float, modelled by
  the rational it denotes.
\<close>

datatype pyval =
    PNone
  | PBool bool
  | PInt int
  | PFloat rat
  | PStr string
  | PList "pyval list"
  | PDict "(string \<times> pyval) list"

text \<open>
  The exceptions the modelled code can meet. Those built by a library carry the text
  that \<open>str(e)\<close> gives; \<open>CalledProcessError\<close> carries \<open>returncode\<close>, \<open>stderr\<close>,
  \<open>stdout\<close> and that text.
\<close>

datatype pyexn =
    FileNotFoundError string
  | JSONDecodeError string
  | CalledProcessError int string string string
  | TimeoutExpired
  | OSError string
  | AttributeError
  | TypeError
  | ZeroDivisionError
  | OverflowError

fun py_truthy :: "pyval \<Rightarrow> bool" where
  "py_truthy PNone = False"
| "py_truthy (PBool b) = b"
| "py_truthy (PInt i) = (i \<noteq> 0)"
| "py_truthy (PFloat q) = (q \<noteq> 0)"
| "py_truthy (PStr s) = (s \<noteq> [])"
| "py_truthy (PList xs) = (xs \<noteq> [])"
| "py_truthy (PDict kvs) = (kvs \<noteq> [])"

text \<open>\<open>a or b\<close> on values that are already evaluated.\<close>

definition py_or :: "pyval \<Rightarrow> pyval \<Rightarrow> pyval" where
  "py_or a b = (if py_truthy a then a else b)"

text \<open>\<open>v == n\<close> for an int literal \<open>n\<close>.\<close>

fun py_eq_int :: "pyval \<Rightarrow> int \<Rightarrow> bool" where
  "py_eq_int (PInt i) n = (i = n)"
| "py_eq_int (PBool b) n = ((if b then 1 else 0) = n)"
| "py_eq_int (PFloat q) n = (q = of_int n)"
| "py_eq_int v n = False"

text \<open>\<open>obj.get(key, default)\<close>: only a dict has the method.\<close>

fun dict_get :: "pyval \<Rightarrow> string \<Rightarrow> pyval \<Rightarrow> pyexn + pyval" where
  "dict_get (PDict kvs) k dflt = Inr (case map_of kvs k of Some v \<Rightarrow> v | None \<Rightarrow> dflt)"
| "dict_get v k dflt = Inl AttributeError"

text \<open>A \<open>for\<close> loop over a value: the elements it yields, or \<open>TypeError\<close>.\<close>

fun py_iter :: "pyval \<Rightarrow> pyexn + pyval list" where
  "py_iter (PList xs) = Inr xs"
| "py_iter (PDict kvs) = Inr (map (\<lambda>kv. PStr (fst kv)) kvs)"
| "py_iter (PStr s) = Inr (map (\<lambda>c. PStr [c]) s)"
| "py_iter v = Inl TypeError"

text \<open>\<open>(v).lower()\<close>: only a str has the method.\<close>

fun lower_method :: "pyval \<Rightarrow> pyexn + string" where
  "lower_method (PStr s) = Inr (py_lower s)"
| "lower_method v = Inl AttributeError"

text \<open>Sequencing of steps that may raise.\<close>

definition bind_exn :: "pyexn + 'a \<Rightarrow> ('a \<Rightarrow> pyexn + 'b) \<Rightarrow> pyexn + 'b" where
  "bind_exn m f = (case m of Inl e \<Rightarrow> Inl e | Inr v \<Rightarrow> f v)"

section \<open>Stereo mode classification and promotion\<close>

record result =
  is_3d :: bool
  stereo_mode :: string
  has_mvc_track :: bool
  width :: pyval
  height :: pyval
  analysis_error :: "string option"

definition STEREO_PRIORITY :: "(string \<times> nat) list" where
  "STEREO_PRIORITY =
     [(''none'', 0), (''tab'', 1), (''sbs'', 2), (''mvc'', 3), (''anaglyph'', 1)]"

text \<open>\<open>_STEREO_PRIORITY.get(mode, 0)\<close>\<close>

definition priority_of :: "string \<Rightarrow> nat" where
  "priority_of m = (case map_of STEREO_PRIORITY m of Some p \<Rightarrow> p | None \<Rightarrow> 0)"

definition any_keyword :: "string list \<Rightarrow> string \<Rightarrow> bool" where
  "any_keyword kws m = list_ex (\<lambda>keyword. py_in keyword m) kws"

text \<open>The body of \<open>_classify_stereo_mode\<close> once \<open>mode_str\<close> is known to be a non-empty str.\<close>

definition classify_stereo_text :: "string \<Rightarrow> string option" where
  "classify_stereo_text mode_str =
     (let m = py_lower (py_strip mode_str);
          m = py_replace_char CHR '' '' CHR ''_'' (py_replace_char CHR ''-'' CHR ''_'' m)
      in if m \<in> set [''mono'', ''left'', ''right'', ''both'', ''2d''] then None
         else if any_keyword [''anaglyph'', ''cyan'', ''magenta'', ''red_cyan'', ''cyan_red''] m
         then Some ''anaglyph''
         else if any_keyword
              [''frame_altern'', ''framealternate'', ''frame_packing'', ''frame_sequential'',
               ''frame_packed'', ''view_packed'', ''mvc'', ''framepacking'', ''frameinterleaved'',
               ''block_lr'', ''block_rl'', ''packed''] m
         then Some ''mvc''
         else if any_keyword
              [''top_bottom'', ''bottom_top'', ''tab'', ''over_under'', ''under_over'',
               ''block_tb'', ''block_bt'', ''topbottom'', ''bt'', ''tb''] m
         then Some ''tab''
         else if any_keyword
              [''side_by_side'', ''sbs'', ''left_right'', ''right_left'',
               ''row_interleaved'', ''column_interleaved''] m
         then Some ''sbs''
         else None)"

text \<open>
  \<open>_classify_stereo_mode\<close>: a falsy argument gives \<open>None\<close>; a truthy one that is no str
  has no \<open>strip\<close> method.
\<close>

definition classify_stereo_mode :: "pyval \<Rightarrow> pyexn + string option" where
  "classify_stereo_mode mode_str =
     (if \<not> py_truthy mode_str then Inr None
      else case mode_str of
             PStr s \<Rightarrow> Inr (classify_stereo_text s)
           | _ \<Rightarrow> Inl AttributeError)"

text \<open>
  \<open>_promote_stereo_mode\<close>, returning the updated dict. Every call site passes a str
  for \<open>mode\<close>; the empty one is the falsy one.
\<close>

definition promote_stereo_mode :: "result \<Rightarrow> string \<Rightarrow> bool \<Rightarrow> result" where
  "promote_stereo_mode result_dict mode mark_mvc =
     (if mode = [] then result_dict
      else
        let priority = priority_of mode;
            current_priority = priority_of (stereo_mode result_dict);
            r1 = (if priority \<ge> current_priority
                  then result_dict\<lparr>stereo_mode := mode\<rparr> else result_dict);
            r2 = r1\<lparr>is_3d := True\<rparr>
        in if mark_mvc \<or> mode = ''mvc'' then r2\<lparr>has_mvc_track := True\<rparr> else r2)"

section \<open>The environment of the analyzer\<close>

text \<open>
  What the code reads from outside itself: the platform, the file system, the two external
  tools and the JSON parser. \<open>run_ffprobe\<close> is
  \<open>subprocess.run(cmd, capture_output=True, text=True, check=True, ...)\<close>: the captured
  standard output of a run that exits with 0, or the exception raised. \<open>run_ffmpeg\<close> is
  \<open>subprocess.run(cmd, ..., timeout=2.0)\<close>: the return code, or the exception raised
  (\<open>TimeoutExpired\<close> after two seconds). \<open>module_dir\<close> is the directory of the
  program's own file.
\<close>

record env =
  sys_platform :: string
  shutil_which :: "string \<Rightarrow> string option"
  path_exists :: "string \<Rightarrow> bool"
  path_join :: "string \<Rightarrow> string \<Rightarrow> string"
  path_abspath :: "string \<Rightarrow> string"
  path_dirname :: "string \<Rightarrow> string"
  path_basename :: "string \<Rightarrow> string"
  module_dir :: string
  glob_glob :: "string \<Rightarrow> string list"
  run_ffprobe :: "string list \<Rightarrow> pyexn + string"
  json_loads :: "string \<Rightarrow> pyexn + pyval"
  run_ffmpeg :: "string list \<Rightarrow> pyexn + int"
  gettempdir :: "pyexn + string"
  time_time_us :: int

definition endswith :: "string \<Rightarrow> string \<Rightarrow> bool" where
  "endswith s suffix = startswith (rev s) (rev suffix)"

text \<open>
  A value that is a str or \<open>None\<close>, used as a condition: \<open>None\<close> and the empty
  string are falsy.
\<close>

definition nonempty :: "string option \<Rightarrow> string option" where
  "nonempty v = (case v of Some s \<Rightarrow> if s \<noteq> [] then Some s else None | None \<Rightarrow> None)"

text \<open>The loop of \<open>_resolve_external_tool\<close> over its candidates; first match wins.\<close>

fun resolve_candidates :: "env \<Rightarrow> string list \<Rightarrow> string option" where
  "resolve_candidates env [] = None"
| "resolve_candidates env (candidate # rest) =
     (case nonempty (shutil_which env candidate) of
        Some resolved \<Rightarrow> Some (path_abspath env resolved)
      | None \<Rightarrow>
          (let local_candidate = path_join env (module_dir env) candidate
           in if path_exists env local_candidate
              then Some (path_abspath env local_candidate)
              else resolve_candidates env rest))"

definition resolve_external_tool :: "env \<Rightarrow> string \<Rightarrow> string option" where
  "resolve_external_tool env executable_name =
     (let candidates =
            (if sys_platform env = ''win32'' \<and> \<not> endswith (py_lower executable_name) ''.exe''
             then [executable_name @ ''.exe''] else []) @ [executable_name]
      in resolve_candidates env candidates)"

definition describe_windows_returncode :: "int \<Rightarrow> string option" where
  "describe_windows_returncode returncode =
     (if returncode \<in> set [3221225781, - 1073741515] then
        Some (''Failed to start the executable (code 0xC0000135). '' @
              ''This usually indicates that DLLs for ffmpeg/ffprobe are missing. '' @
              ''Download a static build of ffmpeg from https://www.gyan.dev/ffmpeg/builds/ '' @
              ''and place ffmpeg.exe/ffprobe.exe and their DLLs in the application's folder, '' @
              ''or add the ffmpeg /bin folder to your PATH.'')
      else if returncode \<in> set [3221225501, - 1073741795] then
        Some (''The system prevented ffmpeg/ffprobe from running (code 0xC0000025). '' @
              ''Check your antivirus or try running the application with sufficient privileges.'')
      else None)"

text \<open>\<open>', '.join(xs)\<close>\<close>

fun join_comma :: "string list \<Rightarrow> string" where
  "join_comma [] = []"
| "join_comma [x] = x"
| "join_comma (x # y # ys) = x @ '', '' @ join_comma (y # ys)"

definition check_ffmpeg_runtime :: "env \<Rightarrow> string \<Rightarrow> string option" where
  "check_ffmpeg_runtime env executable_path =
     (if sys_platform env \<noteq> ''win32'' \<or> executable_path = [] then None
      else
        let folder = path_dirname env executable_path;
            required_bases = [''avcodec'', ''avformat'', ''avutil''];
            missing = filter (\<lambda>base. glob_glob env (path_join env folder (base @ ''-*.dll'')) = [])
                        required_bases
        in if missing \<noteq> [] then
             Some (''ffmpeg/ffprobe found but the following DLLs are missing in the same folder: '' @
                   join_comma missing @
                   ''. Copy all DLLs provided with ffmpeg (from the /bin directory of the archive) '' @
                   ''next to the executables, or install a full static build.'')
           else None)"

section \<open>Video3DAnalyzer.analyze_file\<close>

definition initial_result :: result where
  "initial_result =
     \<lparr>is_3d = False, stereo_mode = ''none'', has_mvc_track = False,
      width = PInt 0, height = PInt 0, analysis_error = None\<rparr>"

text \<open>
  The first part of the \<open>try\<close> block, up to \<open>json.loads\<close>: the parsed data, or the
  exception raised together with the result dict as it is at that moment.
\<close>

definition probe :: "env \<Rightarrow> string \<Rightarrow> result \<Rightarrow> (pyexn \<times> result) + pyval" where
  "probe env file_path result =
     (case nonempty (resolve_external_tool env ''ffprobe'') of
        None \<Rightarrow>
          Inl (FileNotFoundError
                 (''ffprobe not found. Add ffprobe to the PATH or place ffprobe.exe '' @
                  ''in the same folder as SyLC_3D_GUI.py.''), result)
      | Some ffprobe_path \<Rightarrow>
          (case nonempty (check_ffmpeg_runtime env ffprobe_path) of
             Some runtime_issue \<Rightarrow>
               Inl (FileNotFoundError runtime_issue,
                    result\<lparr>analysis_error := Some runtime_issue\<rparr>)
           | None \<Rightarrow>
               (case run_ffprobe env
                       [ffprobe_path, ''-v'', ''error'', ''-print_format'', ''json'',
                        ''-show_streams'', ''-show_format'', file_path] of
                  Inl e \<Rightarrow> Inl (e, result)
                | Inr stdout \<Rightarrow>
                    (case json_loads env (if stdout \<noteq> [] then stdout else ''{}'') of
                       Inl e \<Rightarrow> Inl (e, result)
                     | Inr data \<Rightarrow> Inr data))))"

definition is_framepacked_res :: "pyval \<Rightarrow> pyval \<Rightarrow> bool" where
  "is_framepacked_res w h =
     ((py_eq_int w 1920 \<and> (py_eq_int h 2205 \<or> py_eq_int h 2160)) \<or>
      (py_eq_int w 3840 \<and> py_eq_int h 4320))"

text \<open>
  One round of the loop over \<open>side_data_list\<close>. All the \<open>get\<close> calls are on the same
  object, so they raise together or not at all, and the \<open>or\<close> chains are taken on their
  values.
\<close>

definition side_data_step :: "pyval \<Rightarrow> result \<Rightarrow> pyexn + result" where
  "side_data_step side_data result =
     bind_exn (dict_get side_data ''type'' PNone) (\<lambda>ty.
     bind_exn (dict_get side_data ''side_data_type'' PNone) (\<lambda>sdt.
     bind_exn (lower_method (py_or ty (py_or sdt (PStr [])))) (\<lambda>side_type.
       if py_in ''stereo3d'' side_type \<or> py_in ''stereo_3d'' side_type then
         bind_exn (dict_get side_data ''stereo_mode'' PNone) (\<lambda>sm.
         bind_exn (dict_get side_data ''layout'' PNone) (\<lambda>layout.
         bind_exn (dict_get side_data ''view'' PNone) (\<lambda>view.
           let detected = py_or sm (py_or ty (py_or layout (py_or view (PStr []))))
           in bind_exn (classify_stereo_mode detected) (\<lambda>classified.
                case classified of
                  None \<Rightarrow> Inr result
                | Some c \<Rightarrow>
                    if c = ''mvc'' then Inr (promote_stereo_mode result ''mvc'' True)
                    else if c \<noteq> [] then Inr (promote_stereo_mode result c False)
                    else Inr result))))
       else Inr result)))"

fun side_data_loop :: "pyval list \<Rightarrow> result \<Rightarrow> pyexn + result" where
  "side_data_loop [] result = Inr result"
| "side_data_loop (side_data # rest) result =
     bind_exn (side_data_step side_data result) (side_data_loop rest)"

text \<open>\<open>tags.items()\<close>: only a dict has the method.\<close>

fun items_method :: "pyval \<Rightarrow> pyexn + (string \<times> pyval) list" where
  "items_method (PDict kvs) = Inr kvs"
| "items_method v = Inl AttributeError"

fun tags_loop :: "(string \<times> pyval) list \<Rightarrow> result \<Rightarrow> pyexn + result" where
  "tags_loop [] result = Inr result"
| "tags_loop ((key, val) # rest) result =
     (if startswith (py_lower key) ''stereo'' then
        bind_exn (classify_stereo_mode val) (\<lambda>classified.
          tags_loop rest
            (case classified of
               None \<Rightarrow> result
             | Some c \<Rightarrow> if c \<noteq> [] then promote_stereo_mode result c False else result))
      else tags_loop rest result)"

text \<open>The body of the loop over the streams.\<close>

definition stream_step :: "pyval \<Rightarrow> result \<Rightarrow> pyexn + result" where
  "stream_step stream result0 =
     bind_exn (dict_get stream ''codec_type'' PNone) (\<lambda>codec_type.
       if codec_type \<noteq> PStr ''video'' then Inr result0
       else
         bind_exn (dict_get stream ''width'' (PInt 0)) (\<lambda>w.
         bind_exn (dict_get stream ''height'' (PInt 0)) (\<lambda>h.
           let result1 = result0\<lparr>width := w, height := h\<rparr>;
               is_framepacked = is_framepacked_res w h;
               result2 = (if is_framepacked
                          then result1\<lparr>is_3d := True, has_mvc_track := True, stereo_mode := ''mvc''\<rparr>
                          else result1)
           in
           bind_exn (dict_get stream ''codec_name'' PNone) (\<lambda>cn.
           bind_exn (lower_method (py_or cn (PStr []))) (\<lambda>codec_name.
           bind_exn (dict_get stream ''profile'' PNone) (\<lambda>pr.
           bind_exn (lower_method (py_or pr (PStr []))) (\<lambda>profile.
             let result3 = (if codec_name \<in> set [''mvc'', ''h264'']
                               \<and> (py_in ''stereo'' profile \<or> py_in ''mvc'' profile)
                            then promote_stereo_mode result2 ''mvc'' True else result2)
             in
             bind_exn (dict_get stream ''disposition'' PNone) (\<lambda>d.
               let disposition = py_or d (PDict []);
                   dependent = (case disposition of
                                  PDict kvs \<Rightarrow>
                                    (case map_of kvs ''dependent'' of
                                       Some v \<Rightarrow> py_truthy v | None \<Rightarrow> False)
                                | _ \<Rightarrow> False);
                   result4 = (if dependent
                              then promote_stereo_mode result3 ''mvc'' True else result3)
               in
               if \<not> is_framepacked then
                 bind_exn (dict_get stream ''side_data_list'' (PList [])) (\<lambda>sdl.
                 bind_exn (py_iter sdl) (\<lambda>side_datas.
                 bind_exn (side_data_loop side_datas result4) (\<lambda>result5.
                 bind_exn (dict_get stream ''tags'' PNone) (\<lambda>t.
                 bind_exn (items_method (py_or t (PDict []))) (\<lambda>items.
                   tags_loop items result5)))))
               else Inr result4))))))))"

fun streams_loop :: "pyval list \<Rightarrow> result \<Rightarrow> pyexn + result" where
  "streams_loop [] result = Inr result"
| "streams_loop (stream # rest) result =
     bind_exn (stream_step stream result) (streams_loop rest)"

text \<open>The second loop, looking for a separate MVC stream; it stops at the first one.\<close>

fun separate_mvc_loop :: "pyval list \<Rightarrow> result \<Rightarrow> pyexn + result" where
  "separate_mvc_loop [] result = Inr result"
| "separate_mvc_loop (stream # rest) result =
     bind_exn (dict_get stream ''codec_name'' PNone) (\<lambda>cn.
       if cn = PStr ''mvc''
       then Inr (result\<lparr>is_3d := True, has_mvc_track := True, stereo_mode := ''mvc''\<rparr>)
       else separate_mvc_loop rest result)"

text \<open>The rest of the \<open>try\<close> block, from the parsed data on.\<close>

definition analyze_streams :: "pyval \<Rightarrow> result \<Rightarrow> pyexn + result" where
  "analyze_streams data result =
     bind_exn (dict_get data ''streams'' (PList [])) (\<lambda>ss.
     bind_exn (py_iter ss) (\<lambda>streams.
     bind_exn (streams_loop streams result) (\<lambda>result'.
       if \<not> has_mvc_track result' then
         bind_exn (dict_get data ''streams'' (PList [])) (\<lambda>ss2.
         bind_exn (py_iter ss2) (\<lambda>streams2.
           separate_mvc_loop streams2 result'))
       else Inr result')))"

text \<open>
  The filename heuristic; the two \<open>except\<close> clauses hold the same text of it.
\<close>

definition filename_heuristic :: "env \<Rightarrow> string \<Rightarrow> result \<Rightarrow> result" where
  "filename_heuristic env file_path result =
     (let filename = py_lower (path_basename env file_path)
      in if py_in ''3d'' filename \<or> py_in ''sbs'' filename \<or> py_in ''hsbs'' filename
         then result\<lparr>is_3d := True, stereo_mode := ''sbs''\<rparr>
         else if py_in ''3d'' filename \<and> (py_in ''tab'' filename \<or> py_in ''htab'' filename)
         then result\<lparr>is_3d := True, stereo_mode := ''tab''\<rparr>
         else result)"

text \<open>
  The \<open>except\<close> clauses: \<open>CalledProcessError\<close>, then
  \<open>(json.JSONDecodeError, FileNotFoundError)\<close>; any other exception leaves the function.
  The fields of \<open>CalledProcessError\<close> are \<open>returncode\<close>, \<open>stderr\<close>, \<open>stdout\<close> and
  \<open>str(e)\<close>.
\<close>

fun handle_exn :: "env \<Rightarrow> string \<Rightarrow> pyexn \<Rightarrow> result \<Rightarrow> pyexn + result" where
  "handle_exn env file_path (CalledProcessError returncode err out text) result =
     (let error_output = py_strip (if err \<noteq> [] then err else if out \<noteq> [] then out else []);
          message = (if error_output \<noteq> [] then error_output else text);
          result1 = (case describe_windows_returncode returncode of
                       Some hint \<Rightarrow> result\<lparr>analysis_error := Some hint\<rparr>
                     | None \<Rightarrow> result\<lparr>analysis_error := Some message\<rparr>)
      in Inr (filename_heuristic env file_path result1))"
| "handle_exn env file_path (JSONDecodeError text) result =
     Inr (filename_heuristic env file_path (result\<lparr>analysis_error := Some text\<rparr>))"
| "handle_exn env file_path (FileNotFoundError text) result =
     Inr (filename_heuristic env file_path (result\<lparr>analysis_error := Some text\<rparr>))"
| "handle_exn env file_path e result = Inl e"

text \<open>
  \<open>Video3DAnalyzer.analyze_file\<close>: \<open>Inr\<close> the dict returned, \<open>Inl\<close> the exception that
  leaves the function. The second part of the \<open>try\<close> block raises \<open>AttributeError\<close> or
  \<open>TypeError\<close> only (lemma \<open>analyze_streams_raises\<close>), which no clause catches.
\<close>

definition analyze_file :: "env \<Rightarrow> string \<Rightarrow> pyexn + result" where
  "analyze_file env file_path =
     (let result = initial_result
      in case probe env file_path result of
           Inl (e, result') \<Rightarrow> handle_exn env file_path e result'
         | Inr data \<Rightarrow> analyze_streams data result)"

section \<open>Thumbnail extraction\<close>

text \<open>\<open>str(n)\<close> for an int.\<close>

function str_nat :: "nat \<Rightarrow> string" where
  "str_nat n =
     (if n < 10 then [''0123456789'' ! n]
      else str_nat (n div 10) @ [''0123456789'' ! (n mod 10)])"
  by pat_completeness auto
termination
  by (relation "measure id") auto

definition str_int :: "int \<Rightarrow> string" where
  "str_int i = (if i < 0 then ''-'' @ str_nat (nat (- i)) else str_nat (nat i))"

text \<open>
  The \<open>try\<close> block of \<open>_extract_thumbnail_ffmpeg\<close>. The timestamp is the int that
  \<open>_do_extraction\<close> passes. \<open>run_ffmpeg\<close> gives the return code; whether the output file
  exists is asked after the run, of the file system as the run left it
  (\<open>exists_after_run\<close>).
\<close>

record extract_env =
  tool_env :: env
  exists_after_run :: "string \<Rightarrow> bool"

text \<open>The name of the output file and the command line, as the \<open>try\<close> block builds them.\<close>

definition thumbnail_path :: "env \<Rightarrow> string \<Rightarrow> string" where
  "thumbnail_path env tmp =
     path_join env tmp (''preview_'' @ str_int (time_time_us env) @ ''.jpg'')"

definition ffmpeg_cmd :: "string \<Rightarrow> int \<Rightarrow> string \<Rightarrow> string \<Rightarrow> string list" where
  "ffmpeg_cmd ffmpeg_path time_pos video_file temp_file =
     [ffmpeg_path, ''-ss'', str_int time_pos, ''-i'', video_file,
      ''-frames:v'', ''1'', ''-vf'', ''scale=120:-1'', ''-q:v'', ''8'', ''-y'', temp_file]"

definition extract_thumbnail_try :: "extract_env \<Rightarrow> string \<Rightarrow> int \<Rightarrow> pyexn + string option" where
  "extract_thumbnail_try xenv video_file time_pos =
     (let env = tool_env xenv in
      case nonempty (resolve_external_tool env ''ffmpeg'') of
        None \<Rightarrow> Inr None
      | Some ffmpeg_path \<Rightarrow>
            bind_exn (gettempdir env) (\<lambda>tmp.
              let temp_file = thumbnail_path env tmp;
                  cmd = ffmpeg_cmd ffmpeg_path time_pos video_file temp_file
              in bind_exn (run_ffmpeg env cmd) (\<lambda>returncode.
                   if returncode = 0 \<and> exists_after_run xenv temp_file
                   then Inr (Some temp_file)
                   else Inr None)))"

text \<open>The bare \<open>except\<close> turns every exception into \<open>None\<close>.\<close>

definition extract_thumbnail_ffmpeg :: "extract_env \<Rightarrow> string \<Rightarrow> int \<Rightarrow> pyexn + string option" where
  "extract_thumbnail_ffmpeg xenv video_file time_pos =
     (case extract_thumbnail_try xenv video_file time_pos of
        Inl e \<Rightarrow> Inr None
      | Inr r \<Rightarrow> Inr r)"

section \<open>TimeSlider: preview cache and debounced extraction\<close>

text \<open>
  A \<open>QPixmap\<close> is null or holds a picture. The preview cache is a Python dict, kept as
  the list of its items in insertion order.
\<close>

datatype pixmap = NullPixmap | Image nat

type_synonym cache = "(int \<times> pixmap) list"

text \<open>\<open>d[k] = v\<close>: a key already present keeps its place, a new one goes last.\<close>

definition dict_set :: "int \<Rightarrow> pixmap \<Rightarrow> cache \<Rightarrow> cache" where
  "dict_set k v d =
     (if k \<in> fst ` set d then map (\<lambda>kv. if fst kv = k then (k, v) else kv) d
      else d @ [(k, v)])"

text \<open>\<open>del d[k]\<close>\<close>

definition dict_del :: "int \<Rightarrow> cache \<Rightarrow> cache" where
  "dict_del k d = filter (\<lambda>kv. fst kv \<noteq> k) d"

text \<open>The caching lines of \<open>_on_extraction_done\<close>.\<close>

definition cache_put :: "cache \<Rightarrow> int \<Rightarrow> pixmap \<Rightarrow> cache" where
  "cache_put preview_cache cache_key pixmap =
     (let c1 = (if length preview_cache > 100
                then (case preview_cache of
                        [] \<Rightarrow> preview_cache
                      | (oldest, _) # _ \<Rightarrow> dict_del oldest preview_cache)
                else preview_cache)
      in dict_set cache_key pixmap c1)"

text \<open>A job handed to the thread pool by \<open>_do_extraction\<close>.\<close>

record job =
  job_video_file :: "string option"
  job_time_pos :: int
  job_mouse_x :: rat

text \<open>
  The fields of \<open>TimeSlider\<close> that the preview code uses, the two widget properties it
  reads (\<open>maximum()\<close>, \<open>width()\<close>), and what it does to the outside: the jobs submitted,
  the previews shown (\<open>setPixmap\<close> followed by \<open>_show_preview_at\<close>), whether the preview
  widget is visible, and the temporary files with the picture each decodes to.
  \<open>timer_active\<close> says that the single-shot \<open>_extraction_timer\<close> is running.
\<close>

record slider =
  maximum :: int
  slider_width :: int
  hover_time :: int
  is_hovering :: bool
  last_preview_time :: int
  preview_cache :: cache
  video_file :: "string option"
  timer_active :: bool
  pending_time :: int
  pending_mouse_x :: rat
  submitted :: "job list"
  shown :: "(pixmap \<times> rat) list"
  preview_visible :: bool
  files :: "string \<rightharpoonup> pixmap"

definition init_slider :: "int \<Rightarrow> int \<Rightarrow> slider" where
  "init_slider mx w =
     \<lparr>maximum = mx, slider_width = w, hover_time = 0, is_hovering = False,
      last_preview_time = - 99, preview_cache = [], video_file = None,
      timer_active = False, pending_time = 0, pending_mouse_x = 0,
      submitted = [], shown = [], preview_visible = False, files = Map.empty\<rparr>"

definition set_video_file :: "slider \<Rightarrow> string \<Rightarrow> slider" where
  "set_video_file s video_path = s\<lparr>video_file := Some video_path, preview_cache := []\<rparr>"

definition enterEvent :: "slider \<Rightarrow> slider" where
  "enterEvent s = s\<lparr>is_hovering := True\<rparr>"

definition leaveEvent :: "slider \<Rightarrow> slider" where
  "leaveEvent s = s\<lparr>is_hovering := False, preview_visible := False\<rparr>"

definition show_preview :: "slider \<Rightarrow> pixmap \<Rightarrow> rat \<Rightarrow> slider" where
  "show_preview s pixmap mouse_x =
     s\<lparr>shown := shown s @ [(pixmap, mouse_x)], preview_visible := True\<rparr>"

text \<open>
  \<open>_request_on_demand_preview\<close>. \<open>time_pos\<close> is the int \<open>_hover_time\<close>, whose
  \<open>round\<close> is itself.
\<close>

definition request_on_demand_preview :: "slider \<Rightarrow> int \<Rightarrow> rat \<Rightarrow> slider" where
  "request_on_demand_preview s time_pos mouse_x =
     (let cache_key = time_pos;
          hit = (case map_of (preview_cache s) cache_key of
                   Some pixmap \<Rightarrow> if pixmap \<noteq> NullPixmap then Some pixmap else None
                 | None \<Rightarrow> None)
      in case hit of
           Some pixmap \<Rightarrow> show_preview s pixmap mouse_x
         | None \<Rightarrow> s\<lparr>pending_time := time_pos, pending_mouse_x := mouse_x,
                      timer_active := True\<rparr>)"

text \<open>\<open>int(x)\<close> of a float truncates towards zero.\<close>

definition py_int :: "rat \<Rightarrow> int" where
  "py_int q = (if q \<ge> 0 then \<lfloor>q\<rfloor> else \<lceil>q\<rceil>)"

text \<open>\<open>round(x)\<close> of a float: to the nearest int, a tie to the even one.\<close>

definition py_round :: "rat \<Rightarrow> int" where
  "py_round q =
     (let f = \<lfloor>q\<rfloor>; d = q - of_int f
      in if d < 1 / 2 then f else if d > 1 / 2 then f + 1 else if even f then f else f + 1)"

text \<open>
  A Python float is an IEEE 754 double. A finite one is modelled by the rational it
  denotes; the result of an operation is the exact result rounded to the nearest double,
  a tie to the one with the even significand. \<open>scale_down\<close> and \<open>scale_up\<close> bring
  the magnitude into the range of a 53-bit significand, counting the binary exponent,
  which stops at the exponent of the subnormal numbers below and past the largest
  exponent above.
\<close>

function scale_down :: "rat \<Rightarrow> int \<Rightarrow> rat \<times> int" where
  "scale_down q e =
     (if \<bar>q\<bar> \<ge> 2 ^ 53 \<and> e < 972 then scale_down (q / 2) (e + 1) else (q, e))"
  by pat_completeness auto
termination
  by (relation "measure (\<lambda>(q, e). nat (972 - e))") auto

function scale_up :: "rat \<Rightarrow> int \<Rightarrow> rat \<times> int" where
  "scale_up q e =
     (if \<bar>q\<bar> < 2 ^ 52 \<and> e > - 1074 then scale_up (2 * q) (e - 1) else (q, e))"
  by pat_completeness auto
termination
  by (relation "measure (\<lambda>(q, e). nat (e + 1074))") auto

declare scale_down.simps [simp del] scale_up.simps [simp del]

definition pow2 :: "int \<Rightarrow> rat" where
  "pow2 e = (if e \<ge> 0 then 2 ^ nat e else 1 / 2 ^ nat (- e))"

text \<open>The value of the double nearest to \<open>x\<close>, the exponent not bounded above.\<close>

definition nearest_double :: "rat \<Rightarrow> rat" where
  "nearest_double x =
     (if x = 0 then 0
      else case scale_down x 0 of
             (q1, e1) \<Rightarrow>
               (case scale_up q1 e1 of
                  (q2, e2) \<Rightarrow> of_int (py_round q2) * pow2 e2))"

text \<open>
  The float that an exact result rounds to: \<open>None\<close> is an infinity, reached when the
  rounded magnitude is \<open>2 ^ 1024\<close> or more.
\<close>

definition py_float :: "rat \<Rightarrow> rat option" where
  "py_float x = (let d = nearest_double x in if \<bar>d\<bar> \<ge> 2 ^ 1024 then None else Some d)"

text \<open>Float division by a non-zero float, and float multiplication.\<close>

definition float_div :: "rat \<Rightarrow> rat \<Rightarrow> rat option" where
  "float_div a b = py_float (a / b)"

definition float_mul :: "rat \<Rightarrow> rat \<Rightarrow> rat option" where
  "float_mul a b = py_float (a * b)"

text \<open>
  The hover time that \<open>mouseMoveEvent\<close> computes for the horizontal position \<open>pos\<close>:
  \<open>value = int((pos / self.width()) * self.maximum())\<close>, clamped to the slider's range.
  The position is a float; it is given by a rational, which stands for the double nearest
  to it, as a decimal literal does. The width and the maximum are C ints, which convert to
  floats exactly. \<open>int\<close> of an infinity raises \<open>OverflowError\<close>.
\<close>

definition hover_time_at :: "slider \<Rightarrow> rat \<Rightarrow> pyexn + int" where
  "hover_time_at s pos =
     (case py_float pos of
        None \<Rightarrow> Inl OverflowError
      | Some x \<Rightarrow>
          (case float_div x (of_int (slider_width s)) of
             None \<Rightarrow> Inl OverflowError
           | Some ratio \<Rightarrow>
               (case float_mul ratio (of_int (maximum s)) of
                  None \<Rightarrow> Inl OverflowError
                | Some y \<Rightarrow> Inr (max 0 (min (py_int y) (maximum s))))))"

text \<open>
  \<open>mouseMoveEvent\<close> at horizontal position \<open>pos\<close>, read as a float as above. The float
  division raises on a widget of width 0. The tooltip text, the repaint and the base
  class's handling are left out.
\<close>

definition mouseMoveEvent :: "slider \<Rightarrow> rat \<Rightarrow> pyexn + slider" where
  "mouseMoveEvent s pos =
     (if maximum s > 0 then
        if slider_width s = 0 then Inl ZeroDivisionError
        else
          bind_exn (hover_time_at s pos) (\<lambda>h.
            let x = nearest_double pos;
                s1 = s\<lparr>hover_time := h, is_hovering := True\<rparr>
            in if video_file s1 \<notin> {None, Some []}
                  \<and> of_int (abs (hover_time s1 - last_preview_time s1)) > (1 / 2 :: rat)
               then Inr (request_on_demand_preview
                           (s1\<lparr>last_preview_time := hover_time s1\<rparr>) (hover_time s1) x)
               else Inr s1)
      else Inr s)"

text \<open>\<open>_do_extraction\<close>, the slot of the timer.\<close>

definition do_extraction :: "slider \<Rightarrow> slider" where
  "do_extraction s =
     s\<lparr>submitted := submitted s @
          [\<lparr>job_video_file = video_file s, job_time_pos = pending_time s,
            job_mouse_x = pending_mouse_x s\<rparr>]\<rparr>"

text \<open>The single-shot timer fires: it stops and calls its slot. An idle timer does not fire.\<close>

definition timer_timeout :: "slider \<Rightarrow> slider" where
  "timer_timeout s = (if timer_active s then do_extraction (s\<lparr>timer_active := False\<rparr>) else s)"

text \<open>\<open>os.remove\<close> inside its own \<open>try\<close>: a missing file changes nothing.\<close>

definition os_remove :: "slider \<Rightarrow> string \<Rightarrow> slider" where
  "os_remove s path = s\<lparr>files := (files s)(path := None)\<rparr>"

text \<open>
  \<open>_on_extraction_done\<close>, the slot of the signal \<open>extraction_done(float, str)\<close>.
  \<open>QPixmap(temp_file)\<close> is null when the file is missing or holds no picture.
\<close>

definition on_extraction_done :: "slider \<Rightarrow> rat \<Rightarrow> string \<Rightarrow> slider" where
  "on_extraction_done s time_pos temp_file =
     (let cache_key = py_round time_pos;
          pixmap = (case files s temp_file of Some p \<Rightarrow> p | None \<Rightarrow> NullPixmap);
          s2 = (if pixmap \<noteq> NullPixmap then
                  let s1 = s\<lparr>preview_cache := cache_put (preview_cache s) cache_key pixmap\<rparr>
                  in if is_hovering s1 \<and> abs (time_pos - of_int (hover_time s1)) < 3
                     then show_preview s1 pixmap (pending_mouse_x s1)
                     else s1
                else s)
      in os_remove s2 temp_file)"

text \<open>
  \<open>_handle_extraction_result\<close>: the callback of the future emits the signal when the
  worker returned a path.
\<close>

definition handle_extraction_result :: "slider \<Rightarrow> string option \<Rightarrow> int \<Rightarrow> slider" where
  "handle_extraction_result s temp_file time_pos =
     (case temp_file of
        None \<Rightarrow> s
      | Some p \<Rightarrow> if p = [] then s else on_extraction_done s (of_int time_pos) p)"

section \<open>Well-typed metadata and example environments\<close>

text \<open>The exceptions that the \<open>except\<close> clauses of \<open>analyze_file\<close> catch.\<close>

fun caught :: "pyexn \<Rightarrow> bool" where
  "caught (CalledProcessError returncode err out text) = True"
| "caught (JSONDecodeError text) = True"
| "caught (FileNotFoundError text) = True"
| "caught e = False"

text \<open>
  Metadata as the probing tool writes it: the streams are objects, and the fields the
  classifier calls str methods on are strings where they are present and not empty.
\<close>

definition str_or_falsy :: "pyval \<Rightarrow> bool" where
  "str_or_falsy v = (case v of PStr s \<Rightarrow> True | _ \<Rightarrow> \<not> py_truthy v)"

definition field :: "(string \<times> pyval) list \<Rightarrow> string \<Rightarrow> pyval" where
  "field kvs k = (case map_of kvs k of Some v \<Rightarrow> v | None \<Rightarrow> PNone)"

definition well_typed_side_data :: "pyval \<Rightarrow> bool" where
  "well_typed_side_data side_data =
     (case side_data of
        PDict kvs \<Rightarrow>
          list_all (\<lambda>k. str_or_falsy (field kvs k))
            [''type'', ''side_data_type'', ''stereo_mode'', ''layout'', ''view'']
      | _ \<Rightarrow> False)"

definition well_typed_stream :: "pyval \<Rightarrow> bool" where
  "well_typed_stream stream =
     (case stream of
        PDict kvs \<Rightarrow>
          str_or_falsy (field kvs ''codec_name'') \<and>
          str_or_falsy (field kvs ''profile'') \<and>
          (case map_of kvs ''side_data_list'' of
             None \<Rightarrow> True
           | Some (PList sds) \<Rightarrow> list_all well_typed_side_data sds
           | Some _ \<Rightarrow> False) \<and>
          (case field kvs ''tags'' of
             PDict tags \<Rightarrow> list_all (\<lambda>kv. str_or_falsy (snd kv)) tags
           | t \<Rightarrow> \<not> py_truthy t)
      | _ \<Rightarrow> False)"

definition well_typed_metadata :: "pyval \<Rightarrow> bool" where
  "well_typed_metadata data =
     (case data of
        PDict kvs \<Rightarrow>
          (case map_of kvs ''streams'' of
             None \<Rightarrow> True
           | Some (PList streams) \<Rightarrow> list_all well_typed_stream streams
           | Some _ \<Rightarrow> False)
      | _ \<Rightarrow> False)"

text \<open>A video stream whose resolution is one of the frame-packed ones.\<close>

definition framepacked_video_stream :: "pyval \<Rightarrow> bool" where
  "framepacked_video_stream stream =
     (case stream of
        PDict kvs \<Rightarrow>
          map_of kvs ''codec_type'' = Some (PStr ''video'') \<and>
          is_framepacked_res
            (case map_of kvs ''width'' of Some v \<Rightarrow> v | None \<Rightarrow> PInt 0)
            (case map_of kvs ''height'' of Some v \<Rightarrow> v | None \<Rightarrow> PInt 0)
      | _ \<Rightarrow> False)"

definition has_framepacked_video :: "pyval \<Rightarrow> bool" where
  "has_framepacked_video data =
     (case data of
        PDict kvs \<Rightarrow>
          (case map_of kvs ''streams'' of
             Some (PList streams) \<Rightarrow> list_ex framepacked_video_stream streams
           | _ \<Rightarrow> False)
      | _ \<Rightarrow> False)"

text \<open>
  A POSIX machine for the examples: the tools are on the PATH or not at all, the probing
  tool's run and the parse of its output are given.
\<close>

definition posix_basename :: "string \<Rightarrow> string" where
  "posix_basename p = rev (takeWhile (\<lambda>c. c \<noteq> CHR ''/'') (rev p))"

definition posix_dirname :: "string \<Rightarrow> string" where
  "posix_dirname p = rev (drop 1 (dropWhile (\<lambda>c. c \<noteq> CHR ''/'') (rev p)))"

definition posix_env :: "bool \<Rightarrow> pyexn + string \<Rightarrow> pyexn + pyval \<Rightarrow> env" where
  "posix_env installed probe_run parsed =
     \<lparr>sys_platform = ''linux'',
      shutil_which = (\<lambda>name. if installed then Some (''/usr/bin/'' @ name) else None),
      path_exists = (\<lambda>p. False),
      path_join = (\<lambda>a b. a @ ''/'' @ b),
      path_abspath = (\<lambda>p. p),
      path_dirname = posix_dirname,
      path_basename = posix_basename,
      module_dir = ''/opt/sylc'',
      glob_glob = (\<lambda>pattern. []),
      run_ffprobe = (\<lambda>cmd. probe_run),
      json_loads = (\<lambda>s. parsed),
      run_ffmpeg = (\<lambda>cmd. Inr 0),
      gettempdir = Inr ''/tmp'',
      time_time_us = 1700000000000000\<rparr>"

text \<open>The metadata of the examples.\<close>

definition framepacked_example :: pyval where
  "framepacked_example =
     PDict [(''streams'', PList
       [PDict [(''codec_type'', PStr ''video''), (''codec_name'', PStr ''h264''),
               (''width'', PInt 1920), (''height'', PInt 2205),
               (''tags'', PDict [(''STEREO_MODE'', PStr ''side_by_side'')])],
        PDict [(''codec_type'', PStr ''video''), (''width'', PInt 1280), (''height'', PInt 720),
               (''side_data_list'', PList
                  [PDict [(''side_data_type'', PStr ''Stereo3D''),
                          (''layout'', PStr ''top_bottom'')]])],
        PDict [(''codec_type'', PStr ''audio''), (''codec_name'', PStr ''aac'')]])]"

definition tag_then_side_data_example :: pyval where
  "tag_then_side_data_example =
     PDict [(''streams'', PList
       [PDict [(''codec_type'', PStr ''video''),
               (''width'', PInt 1920), (''height'', PInt 1080),
               (''tags'', PDict [(''STEREO_MODE'', PStr ''top_bottom'')]),
               (''side_data_list'', PList
                  [PDict [(''type'', PStr ''Stereo3D''),
                          (''layout'', PStr ''side_by_side'')]])]])]"

text \<open>The classification that a frame-packed resolution fixes.\<close>

definition classified_mvc :: "result \<Rightarrow> bool" where
  "classified_mvc r = (is_3d r \<and> stereo_mode r = ''mvc'' \<and> has_mvc_track r)"

text \<open>
  The spec's words for the mode string of a side-data entry: the first of the candidates,
  in order of preference, that is present and not empty; the empty string when none is.
\<close>

fun first_preferred :: "pyval list \<Rightarrow> pyval" where
  "first_preferred [] = PStr []"
| "first_preferred (v # vs) = (if py_truthy v then v else first_preferred vs)"

text \<open>The mode a call of \<open>analyze_file\<close> returns, if it returns.\<close>

definition returned_mode :: "pyexn + result \<Rightarrow> string option" where
  "returned_mode outcome = (case outcome of Inr r \<Rightarrow> Some (stereo_mode r) | Inl e \<Rightarrow> None)"

definition side_data_type_example :: pyval where
  "side_data_type_example =
     PDict [(''streams'', PList
       [PDict [(''codec_type'', PStr ''video''),
               (''width'', PInt 1920), (''height'', PInt 1080),
               (''tags'', PDict [(''STEREO_MODE'', PStr ''top_bottom'')]),
               (''side_data_list'', PList
                  [PDict [(''side_data_type'', PStr ''Stereo3D''),
                          (''layout'', PStr ''side_by_side'')]])]])]"

section \<open>Scenarios of the preview cache and the debouncer\<close>

text \<open>Caching a sequence of pictures, one call of the caching lines for each.\<close>

definition insert_all :: "cache \<Rightarrow> (int \<times> pixmap) list \<Rightarrow> cache" where
  "insert_all c kvs = fold (\<lambda>kv c'. cache_put c' (fst kv) (snd kv)) kvs c"

text \<open>A lookup in \<open>_request_on_demand_preview\<close> that shows nothing.\<close>

definition cache_miss :: "slider \<Rightarrow> int \<Rightarrow> bool" where
  "cache_miss s t = (map_of (preview_cache s) t \<in> {None, Some NullPixmap})"

text \<open>A run of requests that reach the debouncer, in order.\<close>

definition request_all :: "slider \<Rightarrow> (int \<times> rat) list \<Rightarrow> slider" where
  "request_all s reqs = fold (\<lambda>req s'. request_on_demand_preview s' (fst req) (snd req)) reqs s"

text \<open>
  The hover scenario: a slider 100 pixels wide with maximum 100 (seconds), so that a
  position in pixels is a position in seconds, with a file loaded and nothing cached; the
  mouse moves to the floats 10.0, 10.05 and 10.09, then the timer fires.
\<close>

definition hover_start :: slider where
  "hover_start = set_video_file (init_slider 100 100) ''film.mkv''"

definition hover_scenario :: "pyexn + slider" where
  "hover_scenario =
     bind_exn (mouseMoveEvent hover_start 10) (\<lambda>s1.
     bind_exn (mouseMoveEvent s1 (201 / 20)) (\<lambda>s2.
     bind_exn (mouseMoveEvent s2 (1009 / 100)) (\<lambda>s3.
       Inr (timer_timeout s3))))"

text \<open>The state of the scenario once the first move has reached the debouncer.\<close>

definition hover_pending :: slider where
  "hover_pending =
     hover_start\<lparr>hover_time := 10, is_hovering := True, last_preview_time := 10,
                  pending_time := 10, pending_mouse_x := 10, timer_active := True\<rparr>"

text \<open>
  The same moves on a slider 100 pixels wide with maximum 10000, where a pixel is 100
  seconds.
\<close>

definition long_start :: slider where
  "long_start = set_video_file (init_slider 10000 100) ''film.mkv''"

text \<open>Its state once a move to the float \<open>x\<close> with hover time \<open>t\<close> has reached the debouncer.\<close>

definition long_after :: "int \<Rightarrow> rat \<Rightarrow> slider" where
  "long_after t x =
     long_start\<lparr>hover_time := t, is_hovering := True, last_preview_time := t,
                 pending_time := t, pending_mouse_x := x, timer_active := True\<rparr>"

definition long_scenario :: "pyexn + slider" where
  "long_scenario =
     bind_exn (mouseMoveEvent long_start 10) (\<lambda>s1.
     bind_exn (mouseMoveEvent s1 (201 / 20)) (\<lambda>s2.
     bind_exn (mouseMoveEvent s2 (1009 / 100)) (\<lambda>s3.
       Inr (timer_timeout s3))))"

text \<open>The timestamps of the jobs submitted in a run.\<close>

definition submitted_times :: "pyexn + slider \<Rightarrow> rat list" where
  "submitted_times outcome =
     (case outcome of
        Inr s \<Rightarrow> map (\<lambda>j. of_int (job_time_pos j)) (submitted s)
      | Inl e \<Rightarrow> [])"


section \<open>Properties of promotion\<close>

lemma priority_of_table:
  "priority_of ''none'' = 0 \<and> priority_of ''tab'' = 1 \<and> priority_of ''anaglyph'' = 1 \<and>
   priority_of ''sbs'' = 2 \<and> priority_of ''mvc'' = 3"
  by (simp add: priority_of_def STEREO_PRIORITY_def)

lemma stereo_mode_promote:
  "mode \<noteq> [] \<Longrightarrow>
   stereo_mode (promote_stereo_mode r mode k) =
     (if priority_of mode \<ge> priority_of (stereo_mode r) then mode else stereo_mode r)"
  by (simp add: promote_stereo_mode_def Let_def)

lemma is_3d_promote: "mode \<noteq> [] \<Longrightarrow> is_3d (promote_stereo_mode r mode k)"
  by (simp add: promote_stereo_mode_def Let_def)

lemma is_3d_promote_mono: "is_3d r \<Longrightarrow> is_3d (promote_stereo_mode r mode k)"
  by (simp add: promote_stereo_mode_def Let_def)

lemma promote_twice:
  assumes "m1 \<noteq> []" "m2 \<noteq> []"
    and "priority_of (stereo_mode r) \<le> priority_of m1"
    and "priority_of m1 \<le> priority_of m2"
  shows "stereo_mode (promote_stereo_mode (promote_stereo_mode r m1 k1) m2 k2) = m2"
  using assms by (simp add: stereo_mode_promote)


section \<open>The filename fallback\<close>

lemma probe_failure_result:
  "probe env fp r = Inl (e, r') \<Longrightarrow> r' = r \<or> (\<exists>m. r' = r\<lparr>analysis_error := Some m\<rparr>)"
  by (auto simp: probe_def nonempty_def split: option.splits if_splits sum.splits)

lemma stereo_mode_heuristic:
  "stereo_mode (filename_heuristic env fp r) = ''sbs'' \<or>
   stereo_mode (filename_heuristic env fp r) = stereo_mode r"
  by (simp add: filename_heuristic_def Let_def)

lemma is_3d_heuristic:
  "\<not> is_3d r \<Longrightarrow>
   is_3d (filename_heuristic env fp r) = (stereo_mode (filename_heuristic env fp r) = ''sbs'')
   \<or> stereo_mode r = ''sbs''"
  by (auto simp: filename_heuristic_def Let_def)

lemma handle_exn_caught:
  "caught e \<Longrightarrow>
   \<exists>m. handle_exn env fp e r = Inr (filename_heuristic env fp (r\<lparr>analysis_error := Some m\<rparr>))"
  by (cases e) (auto simp: Let_def split: option.splits)

lemma handle_exn_not_caught: "\<not> caught e \<Longrightarrow> handle_exn env fp e r = Inl e"
  by (cases e) auto

lemma analyze_file_failure:
  assumes "probe env fp initial_result = Inl (e, r0)" "caught e"
  shows "\<exists>m. analyze_file env fp =
           Inr (filename_heuristic env fp (initial_result\<lparr>analysis_error := Some m\<rparr>))"
proof -
  from probe_failure_result [OF assms(1)]
  have "\<forall>m. r0\<lparr>analysis_error := Some m\<rparr> = initial_result\<lparr>analysis_error := Some m\<rparr>"
    by auto
  moreover obtain m where
    "handle_exn env fp e r0 = Inr (filename_heuristic env fp (r0\<lparr>analysis_error := Some m\<rparr>))"
    using handle_exn_caught [OF assms(2)] by blast
  ultimately show ?thesis
    using assms(1) by (auto simp: analyze_file_def)
qed

lemma probe_no_tools: 
  "probe (posix_env False probe_run parsed) fp r =
     Inl (FileNotFoundError
            (''ffprobe not found. Add ffprobe to the PATH or place ffprobe.exe '' @
             ''in the same folder as SyLC_3D_GUI.py.''), r)"
  by (simp add: probe_def resolve_external_tool_def posix_env_def nonempty_def)

lemma probe_posix_parsed:
  "probe (posix_env True (Inr out) (Inr data)) fp r = Inr data"
  by (simp add: probe_def resolve_external_tool_def posix_env_def check_ffmpeg_runtime_def
      nonempty_def)

lemma basename_posix_env: "path_basename (posix_env i probe_run parsed) = posix_basename"
  by (simp add: posix_env_def)

text \<open>
  C10. The \<open>tab\<close> branch of the filename heuristic is never taken: its guard asks for
  \<open>3d\<close> in the filename, which already satisfies the guard of the first branch. So
  whenever probing fails with an exception that \<open>analyze_file\<close> catches, the function
  returns, and the returned \<open>stereo_mode\<close> is \<open>sbs\<close> or the default \<open>none\<close>; it is
  \<open>sbs\<close> exactly when the first guard holds.
\<close>

theorem filename_fallback_never_tab:
  assumes "probe env fp initial_result = Inl (e, r0)" and "caught e"
  shows "\<exists>r. analyze_file env fp = Inr r \<and>
             (stereo_mode r = ''sbs'' \<or> stereo_mode r = ''none'') \<and>
             stereo_mode r \<noteq> ''tab'' \<and>
             (stereo_mode r = ''sbs'' \<longleftrightarrow>
                (let filename = py_lower (path_basename env fp)
                 in py_in ''3d'' filename \<or> py_in ''sbs'' filename \<or> py_in ''hsbs'' filename))"
proof -
  obtain m where
    m: "analyze_file env fp =
          Inr (filename_heuristic env fp (initial_result\<lparr>analysis_error := Some m\<rparr>))"
    using analyze_file_failure [OF assms] by blast
  have "stereo_mode (initial_result\<lparr>analysis_error := Some m\<rparr>) = ''none''"
    by (simp add: initial_result_def)
  then show ?thesis
    unfolding m by (auto simp: filename_heuristic_def Let_def)
qed

theorem filename_fallback_never_tab_witness:
  "\<exists>r. analyze_file (posix_env False (Inr []) (Inr PNone)) ''/films/holiday_tab.mkv'' = Inr r \<and>
       stereo_mode r = ''none''"
proof -
  have c: "caught (FileNotFoundError
            (''ffprobe not found. Add ffprobe to the PATH or place ffprobe.exe '' @
             ''in the same folder as SyLC_3D_GUI.py.''))"
    by simp
  have f: "py_lower (posix_basename ''/films/holiday_tab.mkv'') = ''holiday_tab.mkv''"
    by (simp add: posix_basename_def py_lower_def lower_char_def)
  show ?thesis
    using filename_fallback_never_tab [OF probe_no_tools c, of "Inr []" "Inr PNone"
        "''/films/holiday_tab.mkv''"]
    by (auto simp: basename_posix_env f)
qed

text \<open>
  C4. What the code does where the claim expects \<open>tab\<close>: whenever probing fails with a
  caught exception and the lowercased basename contains \<open>3d\<close>, the result is
  \<open>is_3d\<close> with \<open>stereo_mode = sbs\<close>, also when the name contains \<open>tab\<close>; so for
  \<open>movie_3d_tab.mkv\<close> the code answers \<open>sbs\<close>.
\<close>

theorem filename_fallback_3d_gives_sbs:
  assumes "probe env fp initial_result = Inl (e, r0)" and "caught e"
    and "py_in ''3d'' (py_lower (path_basename env fp))"
  shows "\<exists>r. analyze_file env fp = Inr r \<and> is_3d r \<and> stereo_mode r = ''sbs''"
proof -
  obtain m where
    m: "analyze_file env fp =
          Inr (filename_heuristic env fp (initial_result\<lparr>analysis_error := Some m\<rparr>))"
    using analyze_file_failure [OF assms(1,2)] by blast
  show ?thesis
    unfolding m using assms(3) by (simp add: filename_heuristic_def Let_def)
qed

theorem filename_fallback_3d_gives_sbs_witness:
  "(\<exists>r. analyze_file (posix_env False (Inr []) (Inr PNone)) ''movie_3d_tab.mkv'' = Inr r \<and>
        is_3d r \<and> stereo_mode r = ''sbs'') \<and>
   py_in ''tab'' (py_lower (posix_basename ''movie_3d_tab.mkv''))"
proof -
  have c: "caught (FileNotFoundError
            (''ffprobe not found. Add ffprobe to the PATH or place ffprobe.exe '' @
             ''in the same folder as SyLC_3D_GUI.py.''))"
    by simp
  have f: "py_lower (posix_basename ''movie_3d_tab.mkv'') = ''movie_3d_tab.mkv''"
    by (simp add: posix_basename_def py_lower_def lower_char_def)
  have d: "py_in ''3d'' (py_lower (path_basename (posix_env False (Inr []) (Inr PNone))
             ''movie_3d_tab.mkv''))"
    by (simp add: basename_posix_env f)
  show ?thesis
    using filename_fallback_3d_gives_sbs [OF probe_no_tools c d] by (simp add: f)
qed


section \<open>The analysis of the streams\<close>

subsection \<open>What the loops preserve\<close>

lemma priority_mvc_top: "priority_of ''mvc'' \<le> priority_of m \<Longrightarrow> m = ''mvc''"
  by (auto simp: priority_of_def STEREO_PRIORITY_def split: if_splits)

lemma promote_keeps_mvc: "classified_mvc r \<Longrightarrow> classified_mvc (promote_stereo_mode r m k)"
  by (auto simp: classified_mvc_def promote_stereo_mode_def Let_def dest: priority_mvc_top)

lemma side_data_step_preserves:
  assumes pr: "\<And>r m k. P r \<Longrightarrow> P (promote_stereo_mode r m k)"
    and "side_data_step sd r = Inr r'" and "P r"
  shows "P r'"
  using assms(2,3)
  by (auto simp: side_data_step_def bind_exn_def Let_def
      split: sum.splits option.splits if_splits intro: pr)

lemma side_data_loop_preserves:
  assumes pr: "\<And>r m k. P r \<Longrightarrow> P (promote_stereo_mode r m k)"
  shows "side_data_loop sds r = Inr r' \<Longrightarrow> P r \<Longrightarrow> P r'"
proof (induction sds arbitrary: r)
  case Nil
  then show ?case by simp
next
  case (Cons sd sds)
  from Cons.prems(1) obtain r1 where
    s: "side_data_step sd r = Inr r1" and l: "side_data_loop sds r1 = Inr r'"
    by (auto simp: bind_exn_def split: sum.splits)
  have "P r1" using side_data_step_preserves [of P, OF pr s Cons.prems(2)] .
  then show ?case using Cons.IH [OF l] by simp
qed

lemma tags_loop_preserves:
  assumes pr: "\<And>r m k. P r \<Longrightarrow> P (promote_stereo_mode r m k)"
  shows "tags_loop items r = Inr r' \<Longrightarrow> P r \<Longrightarrow> P r'"
proof (induction items r rule: tags_loop.induct)
  case (1 result)
  then show ?case by simp
next
  case (2 key val rest result)
  show ?case
  proof (cases "startswith (py_lower key) ''stereo''")
    case False
    then show ?thesis using 2 by simp
  next
    case True
    then obtain classified where
      c: "classify_stereo_mode val = Inr classified" and
      l: "tags_loop rest
            (case classified of None \<Rightarrow> result
             | Some c \<Rightarrow> if c \<noteq> [] then promote_stereo_mode result c False else result) = Inr r'"
      using "2.prems"(1) by (auto simp: bind_exn_def split: sum.splits)
    have "P (case classified of None \<Rightarrow> result
             | Some c \<Rightarrow> if c \<noteq> [] then promote_stereo_mode result c False else result)"
      using "2.prems"(2) by (auto split: option.splits intro: pr)
    then show ?thesis using "2.IH"(1) [OF True l] by simp
  qed
qed


lemma stream_step_preserves:
  assumes pr: "\<And>r m k. P r \<Longrightarrow> P (promote_stereo_mode r m k)"
    and pw: "\<And>r w h. P r \<Longrightarrow> P (r\<lparr>width := w, height := h\<rparr>)"
    and pm: "\<And>r. P r \<Longrightarrow> P (r\<lparr>is_3d := True, has_mvc_track := True, stereo_mode := ''mvc''\<rparr>)"
    and st: "stream_step s r = Inr r'" and "P r"
  shows "P r'"
proof (cases "dict_get s ''codec_type'' PNone = Inr (PStr ''video'')")
  case False
  then show ?thesis using st \<open>P r\<close>
    by (auto simp: stream_step_def bind_exn_def split: sum.splits if_splits)
next
  case True
  from st True obtain w h where
    w: "dict_get s ''width'' (PInt 0) = Inr w" and h: "dict_get s ''height'' (PInt 0) = Inr h"
    by (auto simp: stream_step_def bind_exn_def split: sum.splits if_splits)
  define r2 where "r2 = (if is_framepacked_res w h
       then r\<lparr>width := w, height := h, is_3d := True, has_mvc_track := True, stereo_mode := ''mvc''\<rparr>
       else r\<lparr>width := w, height := h\<rparr>)"
  have p1: "P (r\<lparr>width := w, height := h\<rparr>)"
    using \<open>P r\<close> by (rule pw)
  have p2: "P r2"
    using p1 pm [OF p1] by (simp add: r2_def)
  from st True w h obtain r4 where p4: "P r4" and
    rest: "(is_framepacked_res w h \<and> r' = r4) \<or>
           (\<exists>sds r5 items. side_data_loop sds r4 = Inr r5 \<and> tags_loop items r5 = Inr r')"
    using p2 unfolding r2_def
    by (auto simp: stream_step_def bind_exn_def Let_def split: sum.splits if_splits intro!: pr)
  show ?thesis
    using rest p4 side_data_loop_preserves [of P, OF pr] tags_loop_preserves [of P, OF pr]
    by blast
qed

lemma stream_step_framepacked:
  assumes fp: "framepacked_video_stream s" and st: "stream_step s r = Inr r'"
  shows "classified_mvc r'"
proof -
  from fp obtain kvs where s: "s = PDict kvs"
    and v: "map_of kvs ''codec_type'' = Some (PStr ''video'')"
    and f: "is_framepacked_res
              (case map_of kvs ''width'' of Some v \<Rightarrow> v | None \<Rightarrow> PInt 0)
              (case map_of kvs ''height'' of Some v \<Rightarrow> v | None \<Rightarrow> PInt 0)"
    by (auto simp: framepacked_video_stream_def split: pyval.splits)
  define r2 where "r2 = r\<lparr>width := (case map_of kvs ''width'' of Some v \<Rightarrow> v | None \<Rightarrow> PInt 0),
      height := (case map_of kvs ''height'' of Some v \<Rightarrow> v | None \<Rightarrow> PInt 0),
      is_3d := True, has_mvc_track := True, stereo_mode := ''mvc''\<rparr>"
  have c2: "classified_mvc r2"
    by (simp add: r2_def classified_mvc_def)
  from st show ?thesis
    using c2 unfolding r2_def s
    by (auto simp: stream_step_def bind_exn_def Let_def v f
        split: sum.splits if_splits intro!: promote_keeps_mvc)
qed

lemma streams_loop_preserves:
  assumes pr: "\<And>r m k. P r \<Longrightarrow> P (promote_stereo_mode r m k)"
    and pw: "\<And>r w h. P r \<Longrightarrow> P (r\<lparr>width := w, height := h\<rparr>)"
    and pm: "\<And>r. P r \<Longrightarrow> P (r\<lparr>is_3d := True, has_mvc_track := True, stereo_mode := ''mvc''\<rparr>)"
  shows "streams_loop ss r = Inr r' \<Longrightarrow> P r \<Longrightarrow> P r'"
proof (induction ss arbitrary: r)
  case Nil
  then show ?case by simp
next
  case (Cons s ss)
  from Cons.prems(1) obtain r1 where
    s: "stream_step s r = Inr r1" and l: "streams_loop ss r1 = Inr r'"
    by (auto simp: bind_exn_def split: sum.splits)
  have "P r1" using stream_step_preserves [of P, OF pr pw pm s Cons.prems(2)] .
  then show ?case using Cons.IH [OF l] by simp
qed

lemma classified_mvc_width: "classified_mvc r \<Longrightarrow> classified_mvc (r\<lparr>width := w, height := h\<rparr>)"
  by (simp add: classified_mvc_def)

lemma classified_mvc_set:
  "classified_mvc r \<Longrightarrow>
   classified_mvc (r\<lparr>is_3d := True, has_mvc_track := True, stereo_mode := ''mvc''\<rparr>)"
  by (simp add: classified_mvc_def)

lemma streams_loop_framepacked:
  "list_ex framepacked_video_stream ss \<or> classified_mvc r \<Longrightarrow>
   streams_loop ss r = Inr r' \<Longrightarrow> classified_mvc r'"
proof (induction ss arbitrary: r)
  case Nil
  then show ?case by simp
next
  case (Cons s ss)
  from Cons.prems(2) obtain r1 where
    s: "stream_step s r = Inr r1" and l: "streams_loop ss r1 = Inr r'"
    by (auto simp: bind_exn_def split: sum.splits)
  have "list_ex framepacked_video_stream ss \<or> classified_mvc r1"
  proof (cases "framepacked_video_stream s")
    case True
    then show ?thesis using stream_step_framepacked [OF True s] by simp
  next
    case False
    show ?thesis
    proof (cases "classified_mvc r")
      case True
      then have "classified_mvc r1"
        using stream_step_preserves [of classified_mvc, OF promote_keeps_mvc
            classified_mvc_width classified_mvc_set s]
        by simp
      then show ?thesis by simp
    next
      case nc: False
      then show ?thesis using Cons.prems(1) False by simp
    qed
  qed
  then show ?case using Cons.IH [OF _ l] by simp
qed

lemma separate_mvc_loop_preserves:
  assumes pm: "\<And>r. P r \<Longrightarrow> P (r\<lparr>is_3d := True, has_mvc_track := True, stereo_mode := ''mvc''\<rparr>)"
  shows "separate_mvc_loop ss r = Inr r' \<Longrightarrow> P r \<Longrightarrow> P r'"
  by (induction ss arbitrary: r)
     (auto simp: bind_exn_def split: sum.splits if_splits intro: pm)

lemma has_framepacked_videoD:
  "has_framepacked_video data \<Longrightarrow>
   \<exists>kvs ss. data = PDict kvs \<and> map_of kvs ''streams'' = Some (PList ss) \<and>
            list_ex framepacked_video_stream ss"
  unfolding has_framepacked_video_def
  apply (cases data; simp)
  subgoal for kvs
    apply (cases "map_of kvs ''streams''"; simp)
    subgoal for v by (cases v; simp)
    done
  done

lemma analyze_streams_framepacked:
  assumes "has_framepacked_video data" and "analyze_streams data r = Inr r'"
  shows "classified_mvc r'"
proof -
  from has_framepacked_videoD [OF assms(1)] obtain kvs ss where d: "data = PDict kvs"
    and m: "map_of kvs ''streams'' = Some (PList ss)"
    and ex: "list_ex framepacked_video_stream ss"
    by blast
  from assms(2) obtain r1 where l: "streams_loop ss r = Inr r1"
    and f: "r' = r1 \<or> separate_mvc_loop ss r1 = Inr r'"
    by (auto simp: analyze_streams_def d m bind_exn_def split: sum.splits if_splits)
  have "classified_mvc r1"
    using streams_loop_framepacked [OF _ l] ex by simp
  then show ?thesis
    using f separate_mvc_loop_preserves [of classified_mvc, OF classified_mvc_set] by blast
qed

lemma analyze_streams_is_3d:
  assumes "analyze_streams data r = Inr r'" and "is_3d r"
  shows "is_3d r'"
proof -
  from assms(1) obtain ss r1 where l: "streams_loop ss r = Inr r1"
    and f: "r' = r1 \<or> separate_mvc_loop ss r1 = Inr r'"
    by (auto simp: analyze_streams_def bind_exn_def split: sum.splits if_splits)
  have "is_3d r1"
    using streams_loop_preserves [of is_3d, OF is_3d_promote_mono _ _ l] assms(2) by simp
  then show ?thesis
    using f separate_mvc_loop_preserves [of is_3d ss r1 r'] by auto
qed


lemma str_or_falsy_or: "str_or_falsy a \<Longrightarrow> str_or_falsy b \<Longrightarrow> str_or_falsy (py_or a b)"
  by (simp add: py_or_def)

lemma str_or_falsy_empty: "str_or_falsy (PStr [])"
  by (simp add: str_or_falsy_def)

lemma lower_method_total:
  "str_or_falsy v \<Longrightarrow> \<exists>s. lower_method (py_or v (PStr [])) = Inr s"
  by (cases v) (auto simp: str_or_falsy_def py_or_def)

lemma classify_total: "str_or_falsy v \<Longrightarrow> \<exists>c. classify_stereo_mode v = Inr c"
  by (cases v) (auto simp: str_or_falsy_def classify_stereo_mode_def)

lemma side_data_step_total:
  assumes "well_typed_side_data sd"
  shows "\<exists>r'. side_data_step sd r = Inr r'"
proof -
  from assms obtain kvs where sd: "sd = PDict kvs"
    and t: "str_or_falsy (field kvs ''type'')" and st: "str_or_falsy (field kvs ''side_data_type'')"
    and sm: "str_or_falsy (field kvs ''stereo_mode'')" and l: "str_or_falsy (field kvs ''layout'')"
    and v: "str_or_falsy (field kvs ''view'')"
    by (auto simp: well_typed_side_data_def split: pyval.splits)
  have g: "\<And>k. dict_get sd k PNone = Inr (field kvs k)"
    by (simp add: sd field_def)
  obtain side_type where
    lo: "lower_method (py_or (field kvs ''type'') (py_or (field kvs ''side_data_type'') (PStr [])))
           = Inr side_type"
    using lower_method_total [OF str_or_falsy_or [OF t st]]
    by (cases "py_truthy (field kvs ''type'')") (auto simp: py_or_def)
  obtain c where
    c: "classify_stereo_mode
          (py_or (field kvs ''stereo_mode'') (py_or (field kvs ''type'')
             (py_or (field kvs ''layout'') (py_or (field kvs ''view'') (PStr []))))) = Inr c"
    using classify_total
      [OF str_or_falsy_or [OF sm str_or_falsy_or [OF t str_or_falsy_or [OF l
          str_or_falsy_or [OF v str_or_falsy_empty]]]]]
    by blast
  show ?thesis
    by (auto simp: side_data_step_def bind_exn_def g lo c Let_def split: option.splits)
qed

lemma side_data_loop_total:
  "list_all well_typed_side_data sds \<Longrightarrow> \<exists>r'. side_data_loop sds r = Inr r'"
proof (induction sds arbitrary: r)
  case Nil
  then show ?case by simp
next
  case (Cons sd sds)
  then obtain r1 where "side_data_step sd r = Inr r1"
    using side_data_step_total [of sd r] by auto
  then show ?case using Cons by (simp add: bind_exn_def)
qed

lemma tags_loop_total:
  "list_all (\<lambda>kv. str_or_falsy (snd kv)) items \<Longrightarrow> \<exists>r'. tags_loop items r = Inr r'"
proof (induction items r rule: tags_loop.induct)
  case (1 result)
  then show ?case by simp
next
  case (2 key val rest result)
  then obtain c where c: "classify_stereo_mode val = Inr c"
    using classify_total [of val] by auto
  show ?case
    using 2 c by (auto simp: bind_exn_def)
qed

lemma stream_step_total:
  assumes "well_typed_stream s"
  shows "\<exists>r'. stream_step s r = Inr r'"
proof -
  from assms obtain kvs where s: "s = PDict kvs"
    and cn: "str_or_falsy (field kvs ''codec_name'')"
    and pf: "str_or_falsy (field kvs ''profile'')"
    and sd: "case map_of kvs ''side_data_list'' of
               None \<Rightarrow> True
             | Some (PList sds) \<Rightarrow> list_all well_typed_side_data sds
             | Some _ \<Rightarrow> False"
    and tg: "case field kvs ''tags'' of
               PDict tags \<Rightarrow> list_all (\<lambda>kv. str_or_falsy (snd kv)) tags
             | t \<Rightarrow> \<not> py_truthy t"
    by (auto simp: well_typed_stream_def split: pyval.splits)
  have g: "\<And>k. dict_get s k PNone = Inr (field kvs k)"
    by (simp add: s field_def)
  have gd: "\<And>k d. \<exists>v. dict_get s k d = Inr v"
    by (simp add: s)
  obtain codec_name where
    lc: "lower_method (py_or (field kvs ''codec_name'') (PStr [])) = Inr codec_name"
    using lower_method_total [OF cn] by blast
  obtain profile where
    lp: "lower_method (py_or (field kvs ''profile'') (PStr [])) = Inr profile"
    using lower_method_total [OF pf] by blast
  have "\<exists>sds. bind_exn (dict_get s ''side_data_list'' (PList [])) py_iter = Inr sds \<and>
           list_all well_typed_side_data sds"
    using sd by (auto simp: s bind_exn_def split: option.splits pyval.splits)
  then obtain sds where
    sds: "bind_exn (dict_get s ''side_data_list'' (PList [])) py_iter = Inr sds"
    and wsd: "list_all well_typed_side_data sds"
    by blast
  have "\<exists>items. items_method (py_or (field kvs ''tags'') (PDict [])) = Inr items \<and>
           list_all (\<lambda>kv. str_or_falsy (snd kv)) items"
    using tg by (cases "field kvs ''tags''") (auto simp: py_or_def)
  then obtain items where
    it: "items_method (py_or (field kvs ''tags'') (PDict [])) = Inr items"
    and wit: "list_all (\<lambda>kv. str_or_falsy (snd kv)) items"
    by blast
  have rest: "\<exists>r'. bind_exn (dict_get s ''side_data_list'' (PList [])) (\<lambda>sdl.
                 bind_exn (py_iter sdl) (\<lambda>side_datas.
                 bind_exn (side_data_loop side_datas r4) (\<lambda>result5.
                 bind_exn (dict_get s ''tags'' PNone) (\<lambda>t.
                 bind_exn (items_method (py_or t (PDict []))) (\<lambda>items.
                   tags_loop items result5))))) = Inr r'" for r4
  proof -
    obtain r5 where r5: "side_data_loop sds r4 = Inr r5"
      using side_data_loop_total [OF wsd] by blast
    obtain r6 where "tags_loop items r5 = Inr r6"
      using tags_loop_total [OF wit] by blast
    then show ?thesis
      using sds r5 it by (auto simp: bind_exn_def g split: sum.splits)
  qed
  obtain w where w: "dict_get s ''width'' (PInt 0) = Inr w" using gd by blast
  obtain h where h: "dict_get s ''height'' (PInt 0) = Inr h" using gd by blast
  show ?thesis
    using rest unfolding stream_step_def
    by (simp add: g w h lc lp Let_def bind_exn_def [of "Inr _"])
qed

lemma streams_loop_total:
  "list_all well_typed_stream ss \<Longrightarrow> \<exists>r'. streams_loop ss r = Inr r'"
proof (induction ss arbitrary: r)
  case Nil
  then show ?case by simp
next
  case (Cons s ss)
  then obtain r1 where "stream_step s r = Inr r1"
    using stream_step_total [of s r] by auto
  then show ?case using Cons by (simp add: bind_exn_def)
qed

lemma separate_mvc_loop_total:
  "list_all well_typed_stream ss \<Longrightarrow> \<exists>r'. separate_mvc_loop ss r = Inr r'"
proof (induction ss arbitrary: r)
  case Nil
  then show ?case by simp
next
  case (Cons s ss)
  then obtain kvs where "s = PDict kvs"
    by (auto simp: well_typed_stream_def split: pyval.splits)
  then show ?case using Cons by (simp add: bind_exn_def)
qed

lemma well_typed_metadataD:
  "well_typed_metadata data \<Longrightarrow>
   \<exists>kvs ss. data = PDict kvs \<and>
      bind_exn (dict_get data ''streams'' (PList [])) py_iter = Inr ss \<and>
      list_all well_typed_stream ss"
  unfolding well_typed_metadata_def
  apply (cases data; simp)
  subgoal for kvs
    apply (cases "map_of kvs ''streams''"; simp add: bind_exn_def)
    subgoal for v by (cases v; simp)
    done
  done

lemma analyze_streams_total:
  assumes "well_typed_metadata data"
  shows "\<exists>r'. analyze_streams data r = Inr r'"
proof -
  from well_typed_metadataD [OF assms] obtain kvs ss where d: "data = PDict kvs"
    and it: "bind_exn (dict_get data ''streams'' (PList [])) py_iter = Inr ss"
    and wt: "list_all well_typed_stream ss"
    by blast
  obtain r1 where r1: "streams_loop ss r = Inr r1"
    using streams_loop_total [OF wt] by blast
  obtain r2 where r2: "separate_mvc_loop ss r1 = Inr r2"
    using separate_mvc_loop_total [OF wt] by blast
  show ?thesis
    using it r1 r2
    by (auto simp: analyze_streams_def d bind_exn_def split: sum.splits)
qed

lemma classify_raises: "classify_stereo_mode v = Inl e \<Longrightarrow> e = AttributeError"
  by (auto simp: classify_stereo_mode_def split: if_splits pyval.splits)

lemma dict_get_raises: "dict_get v k d = Inl e \<Longrightarrow> e = AttributeError"
  by (cases v) auto

lemma lower_method_raises: "lower_method v = Inl e \<Longrightarrow> e = AttributeError"
  by (cases v) auto

lemma items_method_raises: "items_method v = Inl e \<Longrightarrow> e = AttributeError"
  by (cases v) auto

lemma py_iter_raises: "py_iter v = Inl e \<Longrightarrow> e = TypeError"
  by (cases v) auto

lemma side_data_step_raises: "side_data_step sd r = Inl e \<Longrightarrow> e \<in> {AttributeError, TypeError}"
  by (auto simp: side_data_step_def bind_exn_def Let_def
      split: sum.splits option.splits if_splits
      dest: classify_raises dict_get_raises lower_method_raises)

lemma side_data_loop_raises: "side_data_loop sds r = Inl e \<Longrightarrow> e \<in> {AttributeError, TypeError}"
  by (induction sds arbitrary: r)
     (auto simp: bind_exn_def split: sum.splits dest: side_data_step_raises)

lemma tags_loop_raises: "tags_loop items r = Inl e \<Longrightarrow> e \<in> {AttributeError, TypeError}"
  by (induction items r rule: tags_loop.induct)
     (auto simp: bind_exn_def split: sum.splits if_splits dest: classify_raises)

lemma stream_step_raises: "stream_step s r = Inl e \<Longrightarrow> e \<in> {AttributeError, TypeError}"
  by (auto simp: stream_step_def bind_exn_def Let_def
      split: sum.splits if_splits
      dest: dict_get_raises lower_method_raises items_method_raises py_iter_raises
        side_data_loop_raises tags_loop_raises)

lemma streams_loop_raises: "streams_loop ss r = Inl e \<Longrightarrow> e \<in> {AttributeError, TypeError}"
  by (induction ss arbitrary: r)
     (auto simp: bind_exn_def split: sum.splits dest: stream_step_raises)

lemma separate_mvc_loop_raises: "separate_mvc_loop ss r = Inl e \<Longrightarrow> e = AttributeError"
  by (induction ss arbitrary: r)
     (auto simp: bind_exn_def split: sum.splits if_splits dest: dict_get_raises)

lemma analyze_streams_raises:
  "analyze_streams data r = Inl e \<Longrightarrow> e \<in> {AttributeError, TypeError}"
  by (auto simp: analyze_streams_def bind_exn_def split: sum.splits if_splits
      dest: dict_get_raises py_iter_raises streams_loop_raises separate_mvc_loop_raises)


subsection \<open>The examples, evaluated\<close>

lemmas eval_defs = analyze_streams_def stream_step_def side_data_step_def bind_exn_def Let_def
  classify_stereo_mode_def classify_stereo_text_def any_keyword_def py_lower_def lower_char_def
  py_strip_def is_space_def py_replace_char_def promote_stereo_mode_def priority_of_def
  STEREO_PRIORITY_def is_framepacked_res_def py_or_def initial_result_def

lemma analyze_tag_then_side_data:
  "analyze_streams tag_then_side_data_example initial_result =
     Inr \<lparr>is_3d = True, stereo_mode = ''tab'', has_mvc_track = False,
          width = PInt 1920, height = PInt 1080, analysis_error = None\<rparr>"
  by (simp add: tag_then_side_data_example_def eval_defs)

lemma analyze_side_data_type:
  "analyze_streams side_data_type_example initial_result =
     Inr \<lparr>is_3d = True, stereo_mode = ''sbs'', has_mvc_track = False,
          width = PInt 1920, height = PInt 1080, analysis_error = None\<rparr>"
  by (simp add: side_data_type_example_def eval_defs)

lemma well_typed_framepacked_example: "well_typed_metadata framepacked_example"
  by (simp add: framepacked_example_def well_typed_metadata_def well_typed_stream_def
      well_typed_side_data_def str_or_falsy_def field_def)

lemma has_framepacked_example: "has_framepacked_video framepacked_example"
  by (simp add: framepacked_example_def has_framepacked_video_def framepacked_video_stream_def
      is_framepacked_res_def)

lemma analyze_file_parsed:
  "probe env fp initial_result = Inr data \<Longrightarrow>
   analyze_file env fp = analyze_streams data initial_result"
  by (simp add: analyze_file_def)

lemma bind_exn_Inr: "bind_exn (Inr v) f = f v"
  by (simp add: bind_exn_def)

lemma bind_exn_Inl: "bind_exn (Inl e) f = Inl e"
  by (simp add: bind_exn_def)

lemma first_preferred_or:
  "first_preferred [a, b, c, d] = py_or a (py_or b (py_or c (py_or d (PStr []))))"
  by (simp add: py_or_def)

lemma side_data_step_matching:
  assumes "lower_method (py_or (field kvs ''type'') (py_or (field kvs ''side_data_type'') (PStr [])))
             = Inr side_type"
    and "py_in ''stereo3d'' side_type \<or> py_in ''stereo_3d'' side_type"
  shows "side_data_step (PDict kvs) r =
        bind_exn
          (classify_stereo_mode
             (first_preferred [field kvs ''stereo_mode'', field kvs ''type'',
                               field kvs ''layout'', field kvs ''view'']))
          (\<lambda>classified. Inr (case classified of
                                None \<Rightarrow> r
                              | Some c \<Rightarrow> promote_stereo_mode r c (c = ''mvc'')))"
proof -
  let ?d = "first_preferred [field kvs ''stereo_mode'', field kvs ''type'',
                               field kvs ''layout'', field kvs ''view'']"
  have g: "\<And>k. dict_get (PDict kvs) k PNone = Inr (field kvs k)"
    by (simp add: field_def)
  have p: "promote_stereo_mode r [] False = r"
    by (simp add: promote_stereo_mode_def)
  have st: "side_data_step (PDict kvs) r =
      bind_exn (classify_stereo_mode ?d) (\<lambda>classified.
                case classified of
                  None \<Rightarrow> Inr r
                | Some c \<Rightarrow>
                    if c = ''mvc'' then Inr (promote_stereo_mode r ''mvc'' True)
                    else if c \<noteq> [] then Inr (promote_stereo_mode r c False)
                    else Inr r)"
    using assms(2)
    by (simp only: side_data_step_def g bind_exn_Inr assms(1) first_preferred_or Let_def if_True)
  show ?thesis
    unfolding st
    by (cases "classify_stereo_mode ?d") (auto simp: bind_exn_def p split: option.splits)
qed

subsection \<open>The claims about the analysis\<close>

text \<open>
  C2. For a non-empty mode, \<open>_promote_stereo_mode\<close> replaces \<open>stereo_mode\<close> exactly
  when the new mode's priority (none 0, tab 1, anaglyph 1, sbs 2, mvc 3) is at least the
  current one's, and it sets \<open>is_3d\<close>. So a signal whose priority is at least the
  priority of the mode in place wins, ties included: of two successive signals with
  priorities \<open>p1 \<le> p2\<close>, the first of which was taken, the later one is the final mode.
  No call turns \<open>is_3d\<close> off, and neither does the analysis of the streams as a whole.
\<close>

theorem promote_stereo_mode_priority:
  "mode \<noteq> [] \<Longrightarrow>
     priority_of ''none'' = 0 \<and> priority_of ''tab'' = 1 \<and> priority_of ''anaglyph'' = 1 \<and>
     priority_of ''sbs'' = 2 \<and> priority_of ''mvc'' = 3 \<and>
     stereo_mode (promote_stereo_mode r mode k) =
       (if priority_of mode \<ge> priority_of (stereo_mode r) then mode else stereo_mode r) \<and>
     is_3d (promote_stereo_mode r mode k) \<and>
     (\<forall>r1 m1 k1. m1 \<noteq> [] \<and> priority_of (stereo_mode r1) \<le> priority_of m1 \<and>
         priority_of m1 \<le> priority_of mode \<longrightarrow>
         stereo_mode (promote_stereo_mode (promote_stereo_mode r1 m1 k1) mode k) = mode) \<and>
     (\<forall>r1 m k1. is_3d r1 \<longrightarrow> is_3d (promote_stereo_mode r1 m k1)) \<and>
     (\<forall>data r1 r'. is_3d r1 \<and> analyze_streams data r1 = Inr r' \<longrightarrow> is_3d r')"
  using priority_of_table [simplified] analyze_streams_is_3d
  by (simp add: stereo_mode_promote is_3d_promote is_3d_promote_mono promote_twice) blast

theorem promote_stereo_mode_priority_witness:
  "stereo_mode (promote_stereo_mode initial_result ''tab'' False) = ''tab'' \<and>
   stereo_mode (promote_stereo_mode
      (promote_stereo_mode initial_result ''tab'' False) ''anaglyph'' False) = ''anaglyph'' \<and>
   stereo_mode (promote_stereo_mode
      (promote_stereo_mode initial_result ''sbs'' False) ''tab'' False) = ''sbs'' \<and>
   is_3d (promote_stereo_mode initial_result ''tab'' False)"
proof -
  have p: "priority_of ''none'' = 0" "priority_of ''tab'' = 1" "priority_of ''anaglyph'' = 1"
    "priority_of ''sbs'' = 2"
    using priority_of_table by simp_all
  have i: "stereo_mode initial_result = ''none''"
    by (simp add: initial_result_def)
  have a: "stereo_mode (promote_stereo_mode initial_result ''tab'' False) = ''tab''"
    using promote_stereo_mode_priority [of "''tab''" initial_result False] p i by simp
  have b: "stereo_mode (promote_stereo_mode
      (promote_stereo_mode initial_result ''tab'' False) ''anaglyph'' False) = ''anaglyph''"
    using promote_stereo_mode_priority
      [of "''anaglyph''" "promote_stereo_mode initial_result ''tab'' False" False] p a
    by simp
  have c0: "stereo_mode (promote_stereo_mode initial_result ''sbs'' False) = ''sbs''"
    using promote_stereo_mode_priority [of "''sbs''" initial_result False] p i by simp
  have c: "stereo_mode (promote_stereo_mode
      (promote_stereo_mode initial_result ''sbs'' False) ''tab'' False) = ''sbs''"
    using promote_stereo_mode_priority
      [of "''tab''" "promote_stereo_mode initial_result ''sbs'' False" False] p c0
    by simp
  have d: "is_3d (promote_stereo_mode initial_result ''tab'' False)"
    using promote_stereo_mode_priority [of "''tab''" initial_result False] by simp
  show ?thesis using a b c d by simp
qed

text \<open>
  C1. The resolution override is absolute. Whenever probing gives metadata with a video
  stream of 1920x2205, 1920x2160 or 3840x4320, every result that \<open>analyze_file\<close>
  returns has \<open>is_3d\<close>, \<open>stereo_mode = mvc\<close> and \<open>has_mvc_track\<close>, whatever the
  tags and side data of any stream hold; and on well-typed metadata it does return.
\<close>

theorem resolution_override:
  assumes "probe env fp initial_result = Inr data" and "has_framepacked_video data"
  shows "(well_typed_metadata data \<longrightarrow> (\<exists>r. analyze_file env fp = Inr r)) \<and>
         (\<forall>r. analyze_file env fp = Inr r \<longrightarrow>
              is_3d r \<and> stereo_mode r = ''mvc'' \<and> has_mvc_track r)"
proof -
  have a: "analyze_file env fp = analyze_streams data initial_result"
    using assms(1) by (rule analyze_file_parsed)
  have "\<And>r. analyze_streams data initial_result = Inr r \<Longrightarrow> classified_mvc r"
    using analyze_streams_framepacked [OF assms(2)] .
  then show ?thesis
    unfolding a using analyze_streams_total [of data initial_result]
    by (auto simp: classified_mvc_def)
qed

theorem resolution_override_witness:
  "\<exists>r. analyze_file (posix_env True (Inr ''{...}'') (Inr framepacked_example)) ''film.mkv'' = Inr r \<and>
       is_3d r \<and> stereo_mode r = ''mvc'' \<and> has_mvc_track r"
  using resolution_override [OF probe_posix_parsed has_framepacked_example,
      of "''{...}''" "''film.mkv''"]
    well_typed_framepacked_example
  by blast

text \<open>
  C3, as the code has it. The mode string of a side-data entry whose type names
  \<open>stereo3d\<close> is the first non-empty one of \<open>stereo_mode\<close>, \<open>type\<close>, \<open>layout\<close>,
  \<open>view\<close>, and the entry is promoted to what that string classifies as. For the stream
  with tag \<open>STEREO_MODE = top_bottom\<close> and side data
  \<open>{type: Stereo3D, layout: side_by_side}\<close> the string is therefore \<open>Stereo3D\<close>,
  which classifies as nothing, and the final mode is the tag's \<open>tab\<close>. With the kind
  under \<open>side_data_type\<close> instead, the string is the layout and the final mode is
  \<open>sbs\<close>.
\<close>

theorem side_data_mode_preference:
  "(\<forall>kvs side_type r.
      lower_method (py_or (field kvs ''type'') (py_or (field kvs ''side_data_type'') (PStr [])))
        = Inr side_type \<and>
      (py_in ''stereo3d'' side_type \<or> py_in ''stereo_3d'' side_type) \<longrightarrow>
      side_data_step (PDict kvs) r =
        bind_exn
          (classify_stereo_mode
             (first_preferred [field kvs ''stereo_mode'', field kvs ''type'',
                               field kvs ''layout'', field kvs ''view'']))
          (\<lambda>classified. Inr (case classified of
                                None \<Rightarrow> r
                              | Some c \<Rightarrow> promote_stereo_mode r c (c = ''mvc'')))) \<and>
   analyze_file (posix_env True (Inr ''{...}'') (Inr tag_then_side_data_example)) ''film.mkv'' =
     Inr \<lparr>is_3d = True, stereo_mode = ''tab'', has_mvc_track = False,
          width = PInt 1920, height = PInt 1080, analysis_error = None\<rparr> \<and>
   analyze_file (posix_env True (Inr ''{...}'') (Inr side_data_type_example)) ''film.mkv'' =
     Inr \<lparr>is_3d = True, stereo_mode = ''sbs'', has_mvc_track = False,
          width = PInt 1920, height = PInt 1080, analysis_error = None\<rparr>"
proof (intro conjI allI impI)
  fix kvs side_type r
  assume "lower_method (py_or (field kvs ''type'') (py_or (field kvs ''side_data_type'') (PStr [])))
        = Inr side_type \<and>
      (py_in ''stereo3d'' side_type \<or> py_in ''stereo_3d'' side_type)"
  then show "side_data_step (PDict kvs) r =
        bind_exn
          (classify_stereo_mode
             (first_preferred [field kvs ''stereo_mode'', field kvs ''type'',
                               field kvs ''layout'', field kvs ''view'']))
          (\<lambda>classified. Inr (case classified of
                                None \<Rightarrow> r
                              | Some c \<Rightarrow> promote_stereo_mode r c (c = ''mvc'')))"
    using side_data_step_matching [of kvs side_type r] by blast
next
  show "analyze_file (posix_env True (Inr ''{...}'') (Inr tag_then_side_data_example))
             ''film.mkv'' =
           Inr \<lparr>is_3d = True, stereo_mode = ''tab'', has_mvc_track = False,
                width = PInt 1920, height = PInt 1080, analysis_error = None\<rparr>"
    by (simp only: analyze_file_parsed [OF probe_posix_parsed] analyze_tag_then_side_data)
next
  show "analyze_file (posix_env True (Inr ''{...}'') (Inr side_data_type_example))
             ''film.mkv'' =
           Inr \<lparr>is_3d = True, stereo_mode = ''sbs'', has_mvc_track = False,
                width = PInt 1920, height = PInt 1080, analysis_error = None\<rparr>"
    by (simp only: analyze_file_parsed [OF probe_posix_parsed] analyze_side_data_type)
qed

theorem side_data_mode_preference_witness:
  "side_data_step
     (PDict [(''type'', PStr ''Stereo3D''), (''layout'', PStr ''side_by_side'')]) initial_result
     = Inr initial_result \<and>
   side_data_step
     (PDict [(''side_data_type'', PStr ''Stereo3D''), (''layout'', PStr ''side_by_side'')])
     initial_result
     = Inr (initial_result\<lparr>stereo_mode := ''sbs'', is_3d := True\<rparr>)"
proof -
  have a: "lower_method (py_or (field [(''type'', PStr ''Stereo3D''),
               (''layout'', PStr ''side_by_side'')] ''type'')
             (py_or (field [(''type'', PStr ''Stereo3D''),
               (''layout'', PStr ''side_by_side'')] ''side_data_type'') (PStr [])))
           = Inr ''stereo3d''"
    by (simp add: field_def py_or_def py_lower_def lower_char_def)
  have b: "lower_method (py_or (field [(''side_data_type'', PStr ''Stereo3D''),
               (''layout'', PStr ''side_by_side'')] ''type'')
             (py_or (field [(''side_data_type'', PStr ''Stereo3D''),
               (''layout'', PStr ''side_by_side'')] ''side_data_type'') (PStr [])))
           = Inr ''stereo3d''"
    by (simp add: field_def py_or_def py_lower_def lower_char_def)
  have c: "py_in ''stereo3d'' ''stereo3d'' \<or> py_in ''stereo_3d'' ''stereo3d''"
    by simp
  have s: "\<And>kvs r. 
      lower_method (py_or (field kvs ''type'') (py_or (field kvs ''side_data_type'') (PStr [])))
        = Inr ''stereo3d'' \<Longrightarrow>
      side_data_step (PDict kvs) r =
        bind_exn
          (classify_stereo_mode
             (first_preferred [field kvs ''stereo_mode'', field kvs ''type'',
                               field kvs ''layout'', field kvs ''view'']))
          (\<lambda>classified. Inr (case classified of
                                None \<Rightarrow> r
                              | Some c \<Rightarrow> promote_stereo_mode r c (c = ''mvc'')))"
    using side_data_mode_preference c by blast
  have f1: "first_preferred [field [(''type'', PStr ''Stereo3D''), (''layout'', PStr ''side_by_side'')] ''stereo_mode'',
               field [(''type'', PStr ''Stereo3D''), (''layout'', PStr ''side_by_side'')] ''type'',
               field [(''type'', PStr ''Stereo3D''), (''layout'', PStr ''side_by_side'')] ''layout'',
               field [(''type'', PStr ''Stereo3D''), (''layout'', PStr ''side_by_side'')] ''view'']
            = PStr ''Stereo3D''"
    by (simp add: field_def)
  have f2: "first_preferred [field [(''side_data_type'', PStr ''Stereo3D''), (''layout'', PStr ''side_by_side'')] ''stereo_mode'',
               field [(''side_data_type'', PStr ''Stereo3D''), (''layout'', PStr ''side_by_side'')] ''type'',
               field [(''side_data_type'', PStr ''Stereo3D''), (''layout'', PStr ''side_by_side'')] ''layout'',
               field [(''side_data_type'', PStr ''Stereo3D''), (''layout'', PStr ''side_by_side'')] ''view'']
            = PStr ''side_by_side''"
    by (simp add: field_def)
  have c1: "classify_stereo_mode (PStr ''Stereo3D'') = Inr None"
    by (simp add: eval_defs)
  have c2: "classify_stereo_mode (PStr ''side_by_side'') = Inr (Some ''sbs'')"
    by (simp add: eval_defs)
  have pr: "promote_stereo_mode initial_result ''sbs'' False =
              initial_result\<lparr>stereo_mode := ''sbs'', is_3d := True\<rparr>"
    by (simp add: eval_defs)
  show ?thesis
    unfolding s [OF a] s [OF b] f1 f2 c1 c2
    by (simp add: bind_exn_Inr pr)
qed

text \<open>
  The claim C3 expects \<open>sbs\<close> for the stream with the tag and the side-data entry
  \<open>{type: Stereo3D, layout: side_by_side}\<close>; the code returns another mode.
\<close>

theorem tag_then_side_data_counterexample:
  "returned_mode
     (analyze_file (posix_env True (Inr ''{...}'') (Inr tag_then_side_data_example)) ''film.mkv'')
   \<noteq> Some ''sbs''"
  by (simp add: analyze_file_parsed [OF probe_posix_parsed] analyze_tag_then_side_data
      returned_mode_def)

text \<open>
  C5. Where \<open>analyze_file\<close> raises: when the probing tool's output parses to a JSON
  value that is no object, \<open>data.get\<close> raises \<open>AttributeError\<close>, which no \<open>except\<close>
  clause catches; and an exception of the probing run other than the three caught ones
  leaves the function as it is.
\<close>

theorem analyze_file_raises:
  "(probe env fp initial_result = Inr data \<and> (\<forall>kvs. data \<noteq> PDict kvs) \<longrightarrow>
      analyze_file env fp = Inl AttributeError) \<and>
   (probe env fp initial_result = Inl (e, r0) \<and> \<not> caught e \<longrightarrow> analyze_file env fp = Inl e)"
proof -
  have "analyze_streams data r = Inl AttributeError" if "\<forall>kvs. data \<noteq> PDict kvs" for r
    using that by (cases data) (auto simp: analyze_streams_def bind_exn_def)
  then show ?thesis
    by (auto simp: analyze_file_def handle_exn_not_caught)
qed

theorem analyze_file_raises_witness:
  "analyze_file (posix_env True (Inr ''[]'') (Inr (PList []))) ''film.mkv'' = Inl AttributeError \<and>
   analyze_file (posix_env True (Inl (OSError ''[Errno 13] Permission denied'')) (Inr PNone))
     ''film.mkv'' = Inl (OSError ''[Errno 13] Permission denied'')"
proof -
  have a: "probe (posix_env True (Inl (OSError ''[Errno 13] Permission denied'')) (Inr PNone))
             ''film.mkv'' initial_result =
           Inl (OSError ''[Errno 13] Permission denied'', initial_result)"
    by (simp add: probe_def resolve_external_tool_def posix_env_def check_ffmpeg_runtime_def
      nonempty_def)
  have b: "\<not> caught (OSError ''[Errno 13] Permission denied'')"
    by simp
  have c: "\<forall>kvs. PList [] \<noteq> PDict kvs"
    by simp
  show ?thesis
    using analyze_file_raises
        [of "posix_env True (Inr ''[]'') (Inr (PList []))" "''film.mkv''" "PList []"]
      analyze_file_raises
        [of "posix_env True (Inl (OSError ''[Errno 13] Permission denied'')) (Inr PNone)"
          "''film.mkv''" _ "OSError ''[Errno 13] Permission denied''" initial_result]
      probe_posix_parsed [of "''[]''" "PList []" "''film.mkv''" initial_result] a b c
    by simp
qed


section \<open>The preview cache\<close>


lemma dict_set_new: "k \<notin> fst ` set d \<Longrightarrow> dict_set k v d = d @ [(k, v)]"
  by (simp add: dict_set_def)

lemma cache_put_append:
  "length c \<le> 100 \<Longrightarrow> k \<notin> fst ` set c \<Longrightarrow> cache_put c k v = c @ [(k, v)]"
  by (simp add: cache_put_def dict_set_new)

lemma insert_all_distinct:
  "distinct (map fst (c @ kvs)) \<Longrightarrow> length (c @ kvs) \<le> 101 \<Longrightarrow> insert_all c kvs = c @ kvs"
proof (induction kvs arbitrary: c)
  case Nil
  then show ?case by (simp add: insert_all_def)
next
  case (Cons kv kvs)
  have a: "cache_put c (fst kv) (snd kv) = c @ [kv]"
    using Cons.prems by (intro trans [OF cache_put_append]) auto
  have "insert_all (c @ [kv]) kvs = (c @ [kv]) @ kvs"
    using Cons.prems by (intro Cons.IH) auto
  then show ?case
    using a by (simp add: insert_all_def)
qed

lemma length_dict_set: "length (dict_set k v d) \<le> Suc (length d)"
  by (simp add: dict_set_def)

lemma length_dict_del_hd: "length (dict_del k ((k, v) # d)) \<le> length d"
  by (simp add: dict_del_def)

lemma length_cache_put: "length c \<le> 101 \<Longrightarrow> length (cache_put c k v) \<le> 101"
proof (cases "length c > 100")
  case False
  then show ?thesis
    using length_dict_set [of k v c] by (simp add: cache_put_def)
next
  case True
  assume "length c \<le> 101"
  with True obtain k0 v0 d where c: "c = (k0, v0) # d" and d: "length d = 100"
    by (cases c) auto
  have "length (dict_del k0 c) \<le> 100"
    using length_dict_del_hd [of k0 v0 d] d by (simp add: c)
  then show ?thesis
    using True length_dict_set [of k v "dict_del k0 c"] by (simp add: cache_put_def c)
qed

lemma map_of_dict_set: "map_of (dict_set k v d) k = Some v"
proof (cases "k \<in> fst ` set d")
  case False
  then have "map_of d k = None"
    by (simp add: map_of_eq_None_iff)
  then show ?thesis
    using False by (simp add: dict_set_new map_add_def)
next
  case True
  then show ?thesis
    by (induction d) (auto simp: dict_set_def)
qed

lemma map_of_cache_put: "map_of (cache_put c k v) k = Some v"
  by (simp add: cache_put_def map_of_dict_set)


text \<open>
  C6. What the caching lines do where the claim expects at most 100 entries: the oldest
  entry is evicted only when the cache already holds more than 100, so up to 101 distinct
  keys are all kept, in insertion order, the first one included; 101 is the bound that
  every insertion maintains.
\<close>

theorem cache_keeps_101_entries:
  "(distinct (map fst kvs) \<and> length kvs \<le> 101 \<longrightarrow> insert_all [] kvs = kvs) \<and>
   (length c \<le> 101 \<longrightarrow> length (cache_put c k v) \<le> 101)"
  using insert_all_distinct [of "[]" kvs] length_cache_put [of c k v] by simp

theorem cache_keeps_101_entries_witness:
  "length (insert_all [] (map (\<lambda>k. (k, Image 0)) [1..101])) = 101 \<and>
   1 \<in> fst ` set (insert_all [] (map (\<lambda>k. (k, Image 0)) [1..101]))"
proof -
  have d: "distinct (map fst (map (\<lambda>k. (k, Image 0)) [1..101]))"
    by (simp add: comp_def)
  have l: "length (map (\<lambda>k. (k, Image 0)) [1..101]) \<le> 101"
    by simp
  have e: "insert_all [] (map (\<lambda>k. (k, Image 0)) [1..101]) = map (\<lambda>k. (k, Image 0)) [1..101]"
    using cache_keeps_101_entries [of "map (\<lambda>k. (k, Image 0)) [1..101]"] d l by blast
  show ?thesis
    unfolding e by (simp add: image_image)
qed

section \<open>The extraction worker\<close>

text \<open>
  C9. \<open>_extract_thumbnail_ffmpeg\<close> never raises. It returns the path of the output
  file exactly when the tool is resolved, the run ends within the timeout with return
  code 0 and the output file exists afterwards; in every other case (tool unresolved, an
  exception such as the timeout, another return code, no output file) it returns
  \<open>None\<close>.
\<close>

theorem extract_thumbnail_never_raises:
  "\<exists>r. extract_thumbnail_ffmpeg xenv video time_pos = Inr r \<and>
       (\<forall>p. r = Some p \<longleftrightarrow>
          (\<exists>ffmpeg_path tmp.
              resolve_external_tool (tool_env xenv) ''ffmpeg'' = Some ffmpeg_path \<and>
              ffmpeg_path \<noteq> [] \<and>
              gettempdir (tool_env xenv) = Inr tmp \<and>
              p = thumbnail_path (tool_env xenv) tmp \<and>
              run_ffmpeg (tool_env xenv) (ffmpeg_cmd ffmpeg_path time_pos video p) = Inr 0 \<and>
              exists_after_run xenv p))"
  by (auto simp: extract_thumbnail_ffmpeg_def extract_thumbnail_try_def bind_exn_def Let_def
      nonempty_def split: option.splits sum.splits if_splits)

theorem extract_thumbnail_never_raises_witness:
  "extract_thumbnail_ffmpeg
     \<lparr>tool_env = posix_env True (Inr []) (Inr PNone), exists_after_run = (\<lambda>p. True)\<rparr>
     ''film.mkv'' 10
   = Inr (Some (thumbnail_path (posix_env True (Inr []) (Inr PNone)) ''/tmp'')) \<and>
   extract_thumbnail_ffmpeg
     \<lparr>tool_env = (posix_env True (Inr []) (Inr PNone))\<lparr>run_ffmpeg := (\<lambda>cmd. Inl TimeoutExpired)\<rparr>,
      exists_after_run = (\<lambda>p. True)\<rparr>
     ''film.mkv'' 10
   = Inr None"
proof -
  let ?e = "posix_env True (Inr []) (Inr PNone)"
  have r: "\<And>f. resolve_external_tool (?e\<lparr>run_ffmpeg := f\<rparr>) ''ffmpeg'' = Some ''/usr/bin/ffmpeg''"
    by (simp add: resolve_external_tool_def posix_env_def nonempty_def)
  have r0: "resolve_external_tool ?e ''ffmpeg'' = Some ''/usr/bin/ffmpeg''"
    by (simp add: resolve_external_tool_def posix_env_def nonempty_def)
  have t: "gettempdir ?e = Inr ''/tmp''" "\<And>c. run_ffmpeg ?e c = Inr 0"
    by (simp_all add: posix_env_def)
  obtain r1 where 1: "extract_thumbnail_ffmpeg \<lparr>tool_env = ?e, exists_after_run = (\<lambda>p. True)\<rparr>
       ''film.mkv'' 10 = Inr r1"
    and 2: "\<forall>p. r1 = Some p \<longleftrightarrow> p = thumbnail_path ?e ''/tmp''"
    using extract_thumbnail_never_raises
      [of "\<lparr>tool_env = ?e, exists_after_run = (\<lambda>p. True)\<rparr>" "''film.mkv''" 10]
    by (auto simp: r0 t)
  obtain r2 where 3: "extract_thumbnail_ffmpeg
       \<lparr>tool_env = ?e\<lparr>run_ffmpeg := (\<lambda>cmd. Inl TimeoutExpired)\<rparr>, exists_after_run = (\<lambda>p. True)\<rparr>
       ''film.mkv'' 10 = Inr r2"
    and 4: "\<forall>p. r2 \<noteq> Some p"
    using extract_thumbnail_never_raises
      [of "\<lparr>tool_env = ?e\<lparr>run_ffmpeg := (\<lambda>cmd. Inl TimeoutExpired)\<rparr>,
             exists_after_run = (\<lambda>p. True)\<rparr>" "''film.mkv''" 10]
    by (auto simp: r)
  have "r1 = Some (thumbnail_path ?e ''/tmp'')" using 2 by blast
  moreover have "r2 = None" using 4 by (cases r2) auto
  ultimately show ?thesis using 1 3 by simp
qed


section \<open>Completion of an extraction\<close>

lemma py_round_of_int: "py_round (of_int i) = i"
  by (simp add: py_round_def)

text \<open>
  C8. When the extraction for timestamp \<open>t\<close> ends with a file that holds a picture,
  and by then the hover position is more than 3 seconds away from \<open>t\<close> or hovering
  has ended, \<open>_on_extraction_done\<close> shows nothing, still stores the picture in the
  preview cache under key \<open>round(t)\<close>, and removes the temporary file.
\<close>

theorem stale_result_cached_not_shown:
  assumes "files s temp_file = Some picture" and "picture \<noteq> NullPixmap"
    and "\<not> is_hovering s \<or> abs (t - of_int (hover_time s)) > 3"
  shows "shown (on_extraction_done s t temp_file) = shown s \<and>
         preview_visible (on_extraction_done s t temp_file) = preview_visible s \<and>
         map_of (preview_cache (on_extraction_done s t temp_file)) (py_round t) = Some picture \<and>
         files (on_extraction_done s t temp_file) temp_file = None"
  using assms
  by (auto simp: on_extraction_done_def os_remove_def Let_def map_of_cache_put)

theorem stale_result_cached_not_shown_witness:
  "shown (on_extraction_done
      ((init_slider 100 100)\<lparr>hover_time := 40, is_hovering := True,
          files := [''/tmp/preview_1.jpg'' \<mapsto> Image 7]\<rparr>) 5 ''/tmp/preview_1.jpg'') = [] \<and>
   map_of (preview_cache (on_extraction_done
      ((init_slider 100 100)\<lparr>hover_time := 40, is_hovering := True,
          files := [''/tmp/preview_1.jpg'' \<mapsto> Image 7]\<rparr>) 5 ''/tmp/preview_1.jpg'')) 5
     = Some (Image 7) \<and>
   files (on_extraction_done
      ((init_slider 100 100)\<lparr>hover_time := 40, is_hovering := True,
          files := [''/tmp/preview_1.jpg'' \<mapsto> Image 7]\<rparr>) 5 ''/tmp/preview_1.jpg'')
     ''/tmp/preview_1.jpg'' = None"
proof -
  let ?s = "(init_slider 100 100)\<lparr>hover_time := 40, is_hovering := True,
          files := [''/tmp/preview_1.jpg'' \<mapsto> Image 7]\<rparr>"
  have a: "files ?s ''/tmp/preview_1.jpg'' = Some (Image 7)"
    by simp
  have b: "Image 7 \<noteq> NullPixmap"
    by simp
  have c: "\<not> is_hovering ?s \<or> abs ((5::rat) - of_int (hover_time ?s)) > 3"
    by simp
  have r: "py_round 5 = 5"
    using py_round_of_int [of 5] by simp
  have i: "shown ?s = []"
    by (simp add: init_slider_def)
  show ?thesis
    using stale_result_cached_not_shown [OF a b c] by (simp add: r i)
qed


section \<open>Float arithmetic of the hover time\<close>

lemma scale_up_steps:
  "2 ^ 52 \<le> \<bar>q\<bar> * 2 ^ k \<Longrightarrow> \<bar>q\<bar> * 2 ^ k < 2 ^ 53 \<Longrightarrow> e - int k \<ge> - 1074 \<Longrightarrow>
   scale_up q e = (q * 2 ^ k, e - int k)"
proof (induction k arbitrary: q e)
  case 0
  then show ?case by (subst scale_up.simps) simp
next
  case (Suc k)
  have "\<bar>q\<bar> * 2 \<le> \<bar>q\<bar> * 2 ^ Suc k"
    by (intro mult_left_mono) (simp_all add: self_le_ge2_pow)
  then have small: "\<bar>q\<bar> < 2 ^ 52"
    using Suc.prems(2) by simp
  have e: "e > - 1074"
    using Suc.prems(3) by simp
  have "scale_up (2 * q) (e - 1) = (2 * q * 2 ^ k, e - 1 - int k)"
    using Suc.prems by (intro Suc.IH) (simp_all add: abs_mult mult.assoc)
  then show ?case
    using small e by (subst scale_up.simps) (simp add: mult.assoc)
qed

lemma scale_down_small: "\<bar>q\<bar> < 2 ^ 53 \<Longrightarrow> scale_down q e = (q, e)"
  by (subst scale_down.simps) simp

lemma py_round_near: "of_int n - 1 / 2 < q \<Longrightarrow> q < of_int n + 1 / 2 \<Longrightarrow> py_round q = n"
proof -
  assume a: "of_int n - 1 / 2 < q" and b: "q < of_int n + 1 / 2"
  show ?thesis
  proof (cases "q < of_int n")
    case True
    then have f: "\<lfloor>q\<rfloor> = n - 1"
      using a by (simp add: floor_eq_iff)
    show ?thesis
      using a True by (simp add: py_round_def f Let_def)
  next
    case False
    then have f: "\<lfloor>q\<rfloor> = n"
      using b by (simp add: floor_eq_iff)
    show ?thesis
      using b False by (simp add: py_round_def f Let_def)
  qed
qed

lemma double_eval:
  assumes "2 ^ 52 \<le> \<bar>x\<bar> * 2 ^ k" and "\<bar>x\<bar> * 2 ^ k < 2 ^ 53" and "k \<le> 1074"
    and "of_int n - 1 / 2 < x * 2 ^ k" and "x * 2 ^ k < of_int n + 1 / 2"
  shows "nearest_double x = of_int n / 2 ^ k"
proof -
  have nz: "x \<noteq> 0" using assms(1) by auto
  have "\<bar>x\<bar> * 1 \<le> \<bar>x\<bar> * 2 ^ k"
    by (intro mult_left_mono) simp_all
  then have "\<bar>x\<bar> < 2 ^ 53" using assms(2) by simp
  then have d: "scale_down x 0 = (x, 0)" by (rule scale_down_small)
  have u: "scale_up x 0 = (x * 2 ^ k, 0 - int k)"
    using assms(1,2,3) by (intro scale_up_steps) simp_all
  have r: "py_round (x * 2 ^ k) = n"
    using assms(4,5) by (rule py_round_near)
  show ?thesis
    by (simp add: nearest_double_def nz d u r pow2_def)
qed

lemma double_10: "nearest_double 10 = 10"
  using double_eval [of "10" 49 5629499534213120] by simp

lemma double_201_20: "nearest_double (201 / 20) = 2828823515942093 / 281474976710656"
  using double_eval [of "201 / 20" 49 5657647031884186] by simp

lemma double_1009_100: "nearest_double (1009 / 100) = 2840082515010519 / 281474976710656"
  using double_eval [of "1009 / 100" 49 5680165030021038] by simp

lemma hover_time_at_10: "hover_time_at hover_start 10 = Inr 10"
proof -
  have g: "slider_width hover_start = 100" "maximum hover_start = 100"
    by (simp_all add: hover_start_def set_video_file_def init_slider_def)
  have d0: "nearest_double 10 = 10"
    using double_eval [of "10" 49 5629499534213120] by simp
  have d1: "nearest_double (1 / 10) = 3602879701896397 / 36028797018963968"
    using double_eval [of "1 / 10" 56 7205759403792794] by simp
  have d2: "nearest_double (90071992547409925 / 9007199254740992) = 10"
    using double_eval [of "90071992547409925 / 9007199254740992" 49 5629499534213120] by simp
  have f: "\<lfloor>10 :: rat\<rfloor> = 10"
    by (simp add: floor_eq_iff)
  show ?thesis
    by (simp add: hover_time_at_def float_div_def float_mul_def py_float_def g d0 d1 d2 f
        py_int_def)
qed

lemma hover_time_at_10_05: "hover_time_at hover_start (201 / 20) = Inr 10"
proof -
  have g: "slider_width hover_start = 100" "maximum hover_start = 100"
    by (simp_all add: hover_start_def set_video_file_def init_slider_def)
  have d0: "nearest_double (201 / 20) = 2828823515942093 / 281474976710656"
    using double_eval [of "201 / 20" 49 5657647031884186] by simp
  have d1: "nearest_double (2828823515942093 / 28147497671065600) = 3620894100405879 / 36028797018963968"
    using double_eval [of "2828823515942093 / 28147497671065600" 56 7241788200811758] by simp
  have d2: "nearest_double (90522352510146975 / 9007199254740992) = 2828823515942093 / 281474976710656"
    using double_eval [of "90522352510146975 / 9007199254740992" 49 5657647031884186] by simp
  have f: "\<lfloor>2828823515942093 / 281474976710656 :: rat\<rfloor> = 10"
    by (simp add: floor_eq_iff)
  show ?thesis
    by (simp add: hover_time_at_def float_div_def float_mul_def py_float_def g d0 d1 d2 f
        py_int_def)
qed

lemma hover_time_at_10_09: "hover_time_at hover_start (1009 / 100) = Inr 10"
proof -
  have g: "slider_width hover_start = 100" "maximum hover_start = 100"
    by (simp_all add: hover_start_def set_video_file_def init_slider_def)
  have d0: "nearest_double (1009 / 100) = 2840082515010519 / 281474976710656"
    using double_eval [of "1009 / 100" 49 5680165030021038] by simp
  have d1: "nearest_double (2840082515010519 / 28147497671065600) = 7270611238426929 / 72057594037927936"
    using double_eval [of "2840082515010519 / 28147497671065600" 56 7270611238426929] by simp
  have d2: "nearest_double (181765280960673225 / 18014398509481984) = 2840082515010519 / 281474976710656"
    using double_eval [of "181765280960673225 / 18014398509481984" 49 5680165030021038] by simp
  have f: "\<lfloor>2840082515010519 / 281474976710656 :: rat\<rfloor> = 10"
    by (simp add: floor_eq_iff)
  show ?thesis
    by (simp add: hover_time_at_def float_div_def float_mul_def py_float_def g d0 d1 d2 f
        py_int_def)
qed

lemma hover_time_at_29: "hover_time_at hover_start 29 = Inr 28"
proof -
  have g: "slider_width hover_start = 100" "maximum hover_start = 100"
    by (simp_all add: hover_start_def set_video_file_def init_slider_def)
  have d0: "nearest_double 29 = 29"
    using double_eval [of "29" 48 8162774324609024] by simp
  have d1: "nearest_double (29 / 100) = 5224175567749775 / 18014398509481984"
    using double_eval [of "29 / 100" 54 5224175567749775] by simp
  have d2: "nearest_double (130604389193744375 / 4503599627370496) = 8162774324609023 / 281474976710656"
    using double_eval [of "130604389193744375 / 4503599627370496" 48 8162774324609023] by simp
  have f: "\<lfloor>8162774324609023 / 281474976710656 :: rat\<rfloor> = 28"
    by (simp add: floor_eq_iff)
  show ?thesis
    by (simp add: hover_time_at_def float_div_def float_mul_def py_float_def g d0 d1 d2 f
        py_int_def)
qed

lemma long_time_at_10: "hover_time_at long_start 10 = Inr 1000"
proof -
  have g: "slider_width long_start = 100" "maximum long_start = 10000"
    by (simp_all add: long_start_def set_video_file_def init_slider_def)
  have d0: "nearest_double 10 = 10"
    using double_eval [of "10" 49 5629499534213120] by simp
  have d1: "nearest_double (1 / 10) = 3602879701896397 / 36028797018963968"
    using double_eval [of "1 / 10" 56 7205759403792794] by simp
  have d2: "nearest_double (2251799813685248125 / 2251799813685248) = 1000"
    using double_eval [of "2251799813685248125 / 2251799813685248" 43 8796093022208000] by simp
  have f: "\<lfloor>1000 :: rat\<rfloor> = 1000"
    by (simp add: floor_eq_iff)
  show ?thesis
    by (simp add: hover_time_at_def float_div_def float_mul_def py_float_def g d0 d1 d2 f
        py_int_def)
qed

lemma long_time_at_10_05: "hover_time_at long_start (201 / 20) = Inr 1005"
proof -
  have g: "slider_width long_start = 100" "maximum long_start = 10000"
    by (simp_all add: long_start_def set_video_file_def init_slider_def)
  have d0: "nearest_double (201 / 20) = 2828823515942093 / 281474976710656"
    using double_eval [of "201 / 20" 49 5657647031884186] by simp
  have d1: "nearest_double (2828823515942093 / 28147497671065600) = 3620894100405879 / 36028797018963968"
    using double_eval [of "2828823515942093 / 28147497671065600" 56 7241788200811758] by simp
  have d2: "nearest_double (2263058812753674375 / 2251799813685248) = 8840073487319041 / 8796093022208"
    using double_eval [of "2263058812753674375 / 2251799813685248" 43 8840073487319041] by simp
  have f: "\<lfloor>8840073487319041 / 8796093022208 :: rat\<rfloor> = 1005"
    by (simp add: floor_eq_iff)
  show ?thesis
    by (simp add: hover_time_at_def float_div_def float_mul_def py_float_def g d0 d1 d2 f
        py_int_def)
qed

lemma long_time_at_10_09: "hover_time_at long_start (1009 / 100) = Inr 1009"
proof -
  have g: "slider_width long_start = 100" "maximum long_start = 10000"
    by (simp_all add: long_start_def set_video_file_def init_slider_def)
  have d0: "nearest_double (1009 / 100) = 2840082515010519 / 281474976710656"
    using double_eval [of "1009 / 100" 49 5680165030021038] by simp
  have d1: "nearest_double (2840082515010519 / 28147497671065600) = 7270611238426929 / 72057594037927936"
    using double_eval [of "2840082515010519 / 28147497671065600" 56 7270611238426929] by simp
  have d2: "nearest_double (4544132024016830625 / 4503599627370496) = 1009"
    using double_eval [of "4544132024016830625 / 4503599627370496" 43 8875257859407872] by simp
  have f: "\<lfloor>1009 :: rat\<rfloor> = 1009"
    by (simp add: floor_eq_iff)
  show ?thesis
    by (simp add: hover_time_at_def float_div_def float_mul_def py_float_def g d0 d1 d2 f
        py_int_def)
qed

section \<open>Hovering and the debouncer\<close>

lemma request_miss:
  "cache_miss s t \<Longrightarrow>
   request_on_demand_preview s t x =
     s\<lparr>pending_time := t, pending_mouse_x := x, timer_active := True\<rparr>"
  by (auto simp: request_on_demand_preview_def cache_miss_def Let_def split: option.splits)

lemma far_iff: "((1 / 2 :: rat) < of_int \<bar>a - b\<bar>) \<longleftrightarrow> a \<noteq> b"
proof (cases "a = b")
  case True
  then show ?thesis by simp
next
  case False
  then have "\<bar>a - b\<bar> \<ge> 1" by linarith
  then have "(of_int \<bar>a - b\<bar> :: rat) \<ge> 1"
    by (simp only: of_int_1_le_iff)
  then show ?thesis using False by linarith
qed

lemma far_iff2: "(1 < (of_int \<bar>a - b\<bar> :: rat) * 2) \<longleftrightarrow> a \<noteq> b"
  using far_iff [of a b] by simp

lemma mouseMoveEvent_eq:
  assumes "maximum s > 0" and "slider_width s \<noteq> 0" and "hover_time_at s p = Inr h"
  shows "mouseMoveEvent s p =
           Inr (if video_file s \<notin> {None, Some []} \<and> h \<noteq> last_preview_time s
                then request_on_demand_preview
                       (s\<lparr>hover_time := h, is_hovering := True,
                          last_preview_time := h\<rparr>) h (nearest_double p)
                else s\<lparr>hover_time := h, is_hovering := True\<rparr>)"
  using assms
  by (simp add: mouseMoveEvent_def bind_exn_def Let_def far_iff2 del: of_int_abs)

lemma hover_time_request: "hover_time (request_on_demand_preview r t x) = hover_time r"
  by (simp add: request_on_demand_preview_def Let_def show_preview_def split: option.splits)

lemma mouseMoveEvent_Inr:
  assumes "mouseMoveEvent s p = Inr s'" and "maximum s > 0"
  shows "slider_width s \<noteq> 0 \<and> hover_time_at s p = Inr (hover_time s')"
proof -
  have w: "slider_width s \<noteq> 0"
    using assms by (auto simp: mouseMoveEvent_def)
  obtain h where h: "hover_time_at s p = Inr h"
    using assms w by (cases "hover_time_at s p") (auto simp: mouseMoveEvent_def bind_exn_def)
  have "hover_time s' = h"
    using assms(1) mouseMoveEvent_eq [OF assms(2) w h]
    by (auto simp: hover_time_request split: if_splits)
  then show ?thesis using w h by simp
qed

lemma mouseMove_suppressed:
  assumes "mouseMoveEvent s p = Inr s'" and "maximum s > 0"
    and "hover_time s' = last_preview_time s"
  shows "s' = s\<lparr>hover_time := hover_time s', is_hovering := True\<rparr>"
proof -
  have w: "slider_width s \<noteq> 0" and h: "hover_time_at s p = Inr (hover_time s')"
    using mouseMoveEvent_Inr [OF assms(1,2)] by simp_all
  show ?thesis
    using assms(1,3) mouseMoveEvent_eq [OF assms(2) w h] by simp
qed

lemma mouseMove_request:
  assumes "mouseMoveEvent s p = Inr s'" and "maximum s > 0"
    and "video_file s = Some v" and "v \<noteq> []"
    and "hover_time s' \<noteq> last_preview_time s" and "cache_miss s (hover_time s')"
  shows "s' = s\<lparr>hover_time := hover_time s', is_hovering := True,
                  last_preview_time := hover_time s', pending_time := hover_time s',
                  pending_mouse_x := nearest_double p, timer_active := True\<rparr>"
proof -
  define h where "h = hover_time s'"
  have w: "slider_width s \<noteq> 0" and ht: "hover_time_at s p = Inr h"
    using mouseMoveEvent_Inr [OF assms(1,2)] by (simp_all add: h_def)
  have cm: "cache_miss (s\<lparr>hover_time := h, is_hovering := True,
                          last_preview_time := h\<rparr>) h"
    using assms(6) by (simp add: cache_miss_def h_def)
  have "s' = request_on_demand_preview
               (s\<lparr>hover_time := h, is_hovering := True, last_preview_time := h\<rparr>) h
               (nearest_double p)"
    using assms(1,3,4,5) mouseMoveEvent_eq [OF assms(2) w ht] by (simp add: h_def)
  then have "s' = s\<lparr>hover_time := h, is_hovering := True,
                  last_preview_time := h, pending_time := h,
                  pending_mouse_x := nearest_double p, timer_active := True\<rparr>"
    by (simp add: request_miss [OF cm])
  then show ?thesis
    unfolding h_def [symmetric] .
qed

lemma cache_miss_request: "cache_miss (request_on_demand_preview s t x) t' = cache_miss s t'"
  by (simp add: request_on_demand_preview_def Let_def show_preview_def cache_miss_def
      split: option.splits)

lemma request_all_miss:
  "reqs \<noteq> [] \<Longrightarrow> \<forall>req \<in> set reqs. cache_miss s (fst req) \<Longrightarrow>
   request_all s reqs =
     s\<lparr>pending_time := fst (last reqs), pending_mouse_x := snd (last reqs),
        timer_active := True\<rparr>"
proof (induction reqs arbitrary: s)
  case Nil
  then show ?case by simp
next
  case (Cons req reqs)
  have r: "request_on_demand_preview s (fst req) (snd req) =
             s\<lparr>pending_time := fst req, pending_mouse_x := snd req, timer_active := True\<rparr>"
    using Cons.prems(2) by (simp add: request_miss)
  show ?case
  proof (cases "reqs = []")
    case True
    then show ?thesis using r by (simp add: request_all_def)
  next
    case False
    have m: "\<forall>q \<in> set reqs.
               cache_miss (request_on_demand_preview s (fst req) (snd req)) (fst q)"
      using Cons.prems(2) by (simp add: cache_miss_request)
    have "request_all (request_on_demand_preview s (fst req) (snd req)) reqs =
            (request_on_demand_preview s (fst req) (snd req))
              \<lparr>pending_time := fst (last reqs), pending_mouse_x := snd (last reqs),
               timer_active := True\<rparr>"
      using Cons.IH [OF False m] .
    then show ?thesis
      using False by (simp add: request_all_def r)
  qed
qed

lemma timer_timeout_pending:
  "submitted (timer_timeout (s\<lparr>pending_time := t, pending_mouse_x := x, timer_active := True\<rparr>))
     = submitted s @ [\<lparr>job_video_file = video_file s, job_time_pos = t, job_mouse_x = x\<rparr>]"
  by (simp add: timer_timeout_def do_extraction_def)

lemma three_moves_one_job:
  assumes mx: "maximum s > 0" and v: "video_file s = Some v" "v \<noteq> []"
    and m1: "mouseMoveEvent s p1 = Inr s1" and m2: "mouseMoveEvent s1 p2 = Inr s2"
    and m3: "mouseMoveEvent s2 p3 = Inr s3"
    and far: "of_int \<bar>hover_time s1 - last_preview_time s\<bar> > (1 / 2 :: rat)"
    and miss: "cache_miss s (hover_time s1)"
    and near2: "\<not> of_int \<bar>hover_time s2 - hover_time s1\<bar> > (1 / 2 :: rat)"
    and near3: "\<not> of_int \<bar>hover_time s3 - hover_time s1\<bar> > (1 / 2 :: rat)"
  shows "submitted (timer_timeout s3) =
           submitted s @ [\<lparr>job_video_file = Some v, job_time_pos = hover_time s1,
                             job_mouse_x = nearest_double p1\<rparr>]"
proof -
  define h where "h = hover_time s1"
  have f: "h \<noteq> last_preview_time s" using far far_iff unfolding h_def by blast
  have e2: "hover_time s2 = h" using near2 far_iff unfolding h_def by blast
  have e3: "hover_time s3 = h" using near3 far_iff unfolding h_def by blast
  have s1: "s1 = s\<lparr>hover_time := h, is_hovering := True,
                  last_preview_time := h, pending_time := h,
                  pending_mouse_x := nearest_double p1, timer_active := True\<rparr>"
    using mouseMove_request [OF m1 mx v] f miss unfolding h_def by blast
  have mx1: "maximum s1 > 0" and l1: "last_preview_time s1 = h"
    using mx by (simp_all add: s1)
  have "s2 = s1\<lparr>hover_time := h, is_hovering := True\<rparr>"
    using mouseMove_suppressed [OF m2 mx1] e2 l1 by simp
  then have s2: "s2 = s1"
    by (simp add: s1)
  have "s3 = s1\<lparr>hover_time := h, is_hovering := True\<rparr>"
    using mouseMove_suppressed [OF m3 [unfolded s2] mx1] e3 l1 by simp
  then have s3: "s3 = s1"
    by (simp add: s1)
  have "submitted (timer_timeout s1) =
          submitted s @ [\<lparr>job_video_file = Some v, job_time_pos = h,
                            job_mouse_x = nearest_double p1\<rparr>]"
    by (simp add: s1 timer_timeout_def do_extraction_def v)
  then show ?thesis by (simp add: s3 h_def)
qed

lemma three_moves_last_job:
  assumes mx: "maximum s > 0" and v: "video_file s = Some v" "v \<noteq> []"
    and m1: "mouseMoveEvent s p1 = Inr s1" and m2: "mouseMoveEvent s1 p2 = Inr s2"
    and m3: "mouseMoveEvent s2 p3 = Inr s3"
    and far1: "of_int \<bar>hover_time s1 - last_preview_time s\<bar> > (1 / 2 :: rat)"
    and far2: "of_int \<bar>hover_time s2 - hover_time s1\<bar> > (1 / 2 :: rat)"
    and far3: "of_int \<bar>hover_time s3 - hover_time s2\<bar> > (1 / 2 :: rat)"
    and miss: "cache_miss s (hover_time s1)" "cache_miss s (hover_time s2)"
      "cache_miss s (hover_time s3)"
  shows "submitted (timer_timeout s3) =
           submitted s @ [\<lparr>job_video_file = Some v, job_time_pos = hover_time s3,
                             job_mouse_x = nearest_double p3\<rparr>]"
proof -
  define h1 where "h1 = hover_time s1"
  define h2 where "h2 = hover_time s2"
  define h3 where "h3 = hover_time s3"
  have f1: "h1 \<noteq> last_preview_time s" using far1 far_iff unfolding h1_def by blast
  have f2: "h2 \<noteq> h1" using far2 far_iff unfolding h1_def h2_def by blast
  have f3: "h3 \<noteq> h2" using far3 far_iff unfolding h2_def h3_def by blast
  have s1: "s1 = s\<lparr>hover_time := h1, is_hovering := True,
                  last_preview_time := h1, pending_time := h1,
                  pending_mouse_x := nearest_double p1, timer_active := True\<rparr>"
    using mouseMove_request [OF m1 mx v] f1 miss(1) unfolding h1_def by blast
  have a1: "maximum s1 > 0" "video_file s1 = Some v" "last_preview_time s1 = h1"
    "cache_miss s1 h2"
    using mx v miss(2) by (simp_all add: s1 cache_miss_def h2_def)
  have "s2 = s1\<lparr>hover_time := h2, is_hovering := True,
                  last_preview_time := h2, pending_time := h2,
                  pending_mouse_x := nearest_double p2, timer_active := True\<rparr>"
    using mouseMove_request [OF m2 a1(1,2) v(2)] f2 a1(3,4) unfolding h2_def by simp
  then have s2: "s2 = s\<lparr>hover_time := h2, is_hovering := True,
                  last_preview_time := h2, pending_time := h2,
                  pending_mouse_x := nearest_double p2, timer_active := True\<rparr>"
    by (simp add: s1)
  have a2: "maximum s2 > 0" "video_file s2 = Some v" "last_preview_time s2 = h2"
    "cache_miss s2 h3"
    using mx v miss(3) by (simp_all add: s2 cache_miss_def h3_def)
  have "s3 = s2\<lparr>hover_time := h3, is_hovering := True,
                  last_preview_time := h3, pending_time := h3,
                  pending_mouse_x := nearest_double p3, timer_active := True\<rparr>"
    using mouseMove_request [OF m3 a2(1,2) v(2)] f3 a2(3,4) unfolding h3_def by simp
  then have s3: "s3 = s\<lparr>hover_time := h3, is_hovering := True,
                  last_preview_time := h3, pending_time := h3,
                  pending_mouse_x := nearest_double p3, timer_active := True\<rparr>"
    by (simp add: s2)
  have "submitted (timer_timeout s3) =
          submitted s @ [\<lparr>job_video_file = Some v, job_time_pos = h3,
                            job_mouse_x = nearest_double p3\<rparr>]"
    by (simp add: s3 timer_timeout_def do_extraction_def v)
  then show ?thesis by (simp add: h3_def)
qed

lemma hover_time_at_cong:
  "slider_width s = slider_width s' \<Longrightarrow> maximum s = maximum s' \<Longrightarrow>
   hover_time_at s p = hover_time_at s' p"
  by (simp add: hover_time_at_def split: option.splits)

lemma hover_moves:
  "mouseMoveEvent hover_start 10 = Inr hover_pending"
  "mouseMoveEvent hover_pending (201 / 20) = Inr hover_pending"
  "mouseMoveEvent hover_pending (1009 / 100) = Inr hover_pending"
proof -
  have a: "maximum hover_start > 0" "slider_width hover_start \<noteq> 0"
    "maximum hover_pending > 0" "slider_width hover_pending \<noteq> 0"
    by (simp_all add: hover_start_def hover_pending_def set_video_file_def init_slider_def)
  have c: "hover_time_at hover_pending p = hover_time_at hover_start p" for p
    by (rule hover_time_at_cong) (simp_all add: hover_pending_def)
  show "mouseMoveEvent hover_start 10 = Inr hover_pending"
    unfolding mouseMoveEvent_eq [OF a(1,2) hover_time_at_10]
    by (simp add: hover_start_def hover_pending_def set_video_file_def init_slider_def
        request_on_demand_preview_def double_10)
  show "mouseMoveEvent hover_pending (201 / 20) = Inr hover_pending"
    unfolding mouseMoveEvent_eq [OF a(3,4) trans [OF c hover_time_at_10_05]]
    by (simp add: hover_start_def hover_pending_def set_video_file_def init_slider_def)
  show "mouseMoveEvent hover_pending (1009 / 100) = Inr hover_pending"
    unfolding mouseMoveEvent_eq [OF a(3,4) trans [OF c hover_time_at_10_09]]
    by (simp add: hover_start_def hover_pending_def set_video_file_def init_slider_def)
qed

lemma long_moves:
  "mouseMoveEvent long_start 10 = Inr (long_after 1000 10)"
  "mouseMoveEvent (long_after 1000 10) (201 / 20) =
     Inr (long_after 1005 (nearest_double (201 / 20)))"
  "mouseMoveEvent (long_after 1005 (nearest_double (201 / 20))) (1009 / 100) =
     Inr (long_after 1009 (nearest_double (1009 / 100)))"
proof -
  have a: "maximum long_start > 0" "slider_width long_start \<noteq> 0"
    "maximum (long_after t x) > 0" "slider_width (long_after t x) \<noteq> 0" for t x
    by (simp_all add: long_start_def long_after_def set_video_file_def init_slider_def)
  have c: "hover_time_at (long_after t x) p = hover_time_at long_start p" for p t x
    by (rule hover_time_at_cong) (simp_all add: long_after_def)
  show "mouseMoveEvent long_start 10 = Inr (long_after 1000 10)"
    unfolding mouseMoveEvent_eq [OF a(1,2) long_time_at_10]
    by (simp add: long_start_def long_after_def set_video_file_def init_slider_def
        request_on_demand_preview_def double_10)
  show "mouseMoveEvent (long_after 1000 10) (201 / 20) =
     Inr (long_after 1005 (nearest_double (201 / 20)))"
    unfolding mouseMoveEvent_eq [OF a(3,4) trans [OF c long_time_at_10_05]]
    by (simp add: long_start_def long_after_def set_video_file_def init_slider_def
        request_on_demand_preview_def double_10)
  show "mouseMoveEvent (long_after 1005 (nearest_double (201 / 20))) (1009 / 100) =
     Inr (long_after 1009 (nearest_double (1009 / 100)))"
    unfolding mouseMoveEvent_eq [OF a(3,4) trans [OF c long_time_at_10_09]]
    by (simp add: long_start_def long_after_def set_video_file_def init_slider_def
        request_on_demand_preview_def double_10)
qed

lemma hover_scenario_jobs:
  "hover_scenario =
     Inr (hover_pending\<lparr>timer_active := False,
            submitted := [\<lparr>job_video_file = Some ''film.mkv'', job_time_pos = 10,
                            job_mouse_x = 10\<rparr>]\<rparr>)"
  by (simp add: hover_scenario_def hover_moves bind_exn_def timer_timeout_def do_extraction_def)
     (simp add: hover_pending_def hover_start_def set_video_file_def init_slider_def)

lemma long_scenario_jobs:
  "long_scenario =
     Inr ((long_after 1009 (nearest_double (1009 / 100)))\<lparr>timer_active := False,
            submitted := [\<lparr>job_video_file = Some ''film.mkv'', job_time_pos = 1009,
                            job_mouse_x = nearest_double (1009 / 100)\<rparr>]\<rparr>)"
  by (simp add: long_scenario_def long_moves bind_exn_def timer_timeout_def do_extraction_def)
     (simp add: long_after_def long_start_def set_video_file_def init_slider_def)


text \<open>
  C7, as the code has it. A mouse move reaches the debouncer only when its hover time, a
  whole number of seconds computed in float arithmetic from the position, the width and
  the maximum of the slider, is more than 0.5 s away from the last one requested. When
  three moves arrive before the timer fires, the first passing the threshold and missing
  the cache and the next two within 0.5 s of it, the timer's firing submits exactly one
  job, for the hover time of the first move; when each of the three passes the threshold
  and misses the cache, the one job is for the last. Among the requests that reach the
  debouncer and miss the cache before the timer fires, each replaces the pending values,
  and the one job submitted is for the last of them. On a slider 100 pixels wide with
  maximum 100 the moves to 10.0, 10.05 and 10.09 all have hover time 10 and the one job
  is for timestamp 10; on a slider 100 pixels wide with maximum 10000 their hover times
  are 1000, 1005 and 1009 and the one job is for timestamp 1009.
\<close>

theorem hover_debounce:
  "(maximum s > 0 \<and> video_file s = Some v \<and> v \<noteq> [] \<and>
    mouseMoveEvent s p1 = Inr s1 \<and> mouseMoveEvent s1 p2 = Inr s2 \<and>
    mouseMoveEvent s2 p3 = Inr s3 \<and>
    of_int \<bar>hover_time s1 - last_preview_time s\<bar> > (1 / 2 :: rat) \<and>
    cache_miss s (hover_time s1) \<and>
    \<not> of_int \<bar>hover_time s2 - hover_time s1\<bar> > (1 / 2 :: rat) \<and>
    \<not> of_int \<bar>hover_time s3 - hover_time s1\<bar> > (1 / 2 :: rat) \<longrightarrow>
    submitted (timer_timeout s3) =
      submitted s @ [\<lparr>job_video_file = Some v, job_time_pos = hover_time s1,
                        job_mouse_x = nearest_double p1\<rparr>]) \<and>
   (maximum s > 0 \<and> video_file s = Some v \<and> v \<noteq> [] \<and>
    mouseMoveEvent s p1 = Inr s1 \<and> mouseMoveEvent s1 p2 = Inr s2 \<and>
    mouseMoveEvent s2 p3 = Inr s3 \<and>
    of_int \<bar>hover_time s1 - last_preview_time s\<bar> > (1 / 2 :: rat) \<and>
    of_int \<bar>hover_time s2 - hover_time s1\<bar> > (1 / 2 :: rat) \<and>
    of_int \<bar>hover_time s3 - hover_time s2\<bar> > (1 / 2 :: rat) \<and>
    cache_miss s (hover_time s1) \<and> cache_miss s (hover_time s2) \<and>
    cache_miss s (hover_time s3) \<longrightarrow>
    submitted (timer_timeout s3) =
      submitted s @ [\<lparr>job_video_file = Some v, job_time_pos = hover_time s3,
                        job_mouse_x = nearest_double p3\<rparr>]) \<and>
   (reqs \<noteq> [] \<and> (\<forall>req \<in> set reqs. cache_miss s (fst req)) \<longrightarrow>
    submitted (timer_timeout (request_all s reqs)) =
      submitted s @ [\<lparr>job_video_file = video_file s, job_time_pos = fst (last reqs),
                        job_mouse_x = snd (last reqs)\<rparr>]) \<and>
   submitted_times hover_scenario = [10] \<and>
   submitted_times long_scenario = [1009]"
proof (intro conjI impI)
  assume "maximum s > 0 \<and> video_file s = Some v \<and> v \<noteq> [] \<and>
    mouseMoveEvent s p1 = Inr s1 \<and> mouseMoveEvent s1 p2 = Inr s2 \<and>
    mouseMoveEvent s2 p3 = Inr s3 \<and>
    of_int \<bar>hover_time s1 - last_preview_time s\<bar> > (1 / 2 :: rat) \<and>
    cache_miss s (hover_time s1) \<and>
    \<not> of_int \<bar>hover_time s2 - hover_time s1\<bar> > (1 / 2 :: rat) \<and>
    \<not> of_int \<bar>hover_time s3 - hover_time s1\<bar> > (1 / 2 :: rat)"
  then show "submitted (timer_timeout s3) =
      submitted s @ [\<lparr>job_video_file = Some v, job_time_pos = hover_time s1,
                        job_mouse_x = nearest_double p1\<rparr>]"
    using three_moves_one_job [of s v p1 s1 p2 s2 p3 s3] by blast
next
  assume "maximum s > 0 \<and> video_file s = Some v \<and> v \<noteq> [] \<and>
    mouseMoveEvent s p1 = Inr s1 \<and> mouseMoveEvent s1 p2 = Inr s2 \<and>
    mouseMoveEvent s2 p3 = Inr s3 \<and>
    of_int \<bar>hover_time s1 - last_preview_time s\<bar> > (1 / 2 :: rat) \<and>
    of_int \<bar>hover_time s2 - hover_time s1\<bar> > (1 / 2 :: rat) \<and>
    of_int \<bar>hover_time s3 - hover_time s2\<bar> > (1 / 2 :: rat) \<and>
    cache_miss s (hover_time s1) \<and> cache_miss s (hover_time s2) \<and>
    cache_miss s (hover_time s3)"
  then show "submitted (timer_timeout s3) =
      submitted s @ [\<lparr>job_video_file = Some v, job_time_pos = hover_time s3,
                        job_mouse_x = nearest_double p3\<rparr>]"
    using three_moves_last_job [of s v p1 s1 p2 s2 p3 s3] by blast
next
  assume "reqs \<noteq> [] \<and> (\<forall>req \<in> set reqs. cache_miss s (fst req))"
  then have "request_all s reqs =
     s\<lparr>pending_time := fst (last reqs), pending_mouse_x := snd (last reqs),
        timer_active := True\<rparr>"
    using request_all_miss [of reqs s] by blast
  then show "submitted (timer_timeout (request_all s reqs)) =
      submitted s @ [\<lparr>job_video_file = video_file s, job_time_pos = fst (last reqs),
                        job_mouse_x = snd (last reqs)\<rparr>]"
    by (simp only: timer_timeout_pending)
next
  show "submitted_times hover_scenario = [10]"
    by (simp add: hover_scenario_jobs submitted_times_def)
next
  show "submitted_times long_scenario = [1009]"
    by (simp add: long_scenario_jobs submitted_times_def)
qed

theorem hover_debounce_witness:
  "submitted (timer_timeout hover_pending) =
     [\<lparr>job_video_file = Some ''film.mkv'', job_time_pos = 10, job_mouse_x = 10\<rparr>] \<and>
   submitted (timer_timeout (long_after 1009 (nearest_double (1009 / 100)))) =
     [\<lparr>job_video_file = Some ''film.mkv'', job_time_pos = 1009,
       job_mouse_x = nearest_double (1009 / 100)\<rparr>] \<and>
   submitted (timer_timeout (request_all hover_start [(10, 10), (12, 48), (11, 45 / 4)])) =
     [\<lparr>job_video_file = Some ''film.mkv'', job_time_pos = 11, job_mouse_x = 45 / 4\<rparr>]"
proof -
  have a: "maximum hover_start > 0" "video_file hover_start = Some ''film.mkv''"
    "submitted hover_start = []" "last_preview_time hover_start = - 99"
    "hover_time hover_pending = 10"
    by (simp_all add: hover_start_def hover_pending_def set_video_file_def init_slider_def)
  have b: "maximum long_start > 0" "video_file long_start = Some ''film.mkv''"
    "submitted long_start = []" "last_preview_time long_start = - 99"
    "\<And>t x. hover_time (long_after t x) = t"
    by (simp_all add: long_start_def long_after_def set_video_file_def init_slider_def)
  have m: "\<And>t. cache_miss hover_start t" "\<And>t. cache_miss long_start t"
    by (simp_all add: cache_miss_def hover_start_def long_start_def set_video_file_def
        init_slider_def)
  have n: "''film.mkv'' \<noteq> []"
    by simp
  have far: "of_int \<bar>hover_time hover_pending - last_preview_time hover_start\<bar> > (1 / 2 :: rat)"
    by (simp add: a)
  have near: "\<not> of_int \<bar>hover_time hover_pending - hover_time hover_pending\<bar> > (1 / 2 :: rat)"
    by simp
  have 1: "submitted (timer_timeout hover_pending) =
     [\<lparr>job_video_file = Some ''film.mkv'', job_time_pos = 10, job_mouse_x = 10\<rparr>]"
    using hover_debounce [of hover_start "''film.mkv''" 10 hover_pending
        "201 / 20" hover_pending "1009 / 100" hover_pending]
      a(1,2) n hover_moves far m(1) near
    by (simp add: a double_10)
  have lf: "of_int \<bar>hover_time (long_after 1000 10) - last_preview_time long_start\<bar>
              > (1 / 2 :: rat)"
    "of_int \<bar>hover_time (long_after 1005 (nearest_double (201 / 20)))
        - hover_time (long_after 1000 10)\<bar> > (1 / 2 :: rat)"
    "of_int \<bar>hover_time (long_after 1009 (nearest_double (1009 / 100)))
        - hover_time (long_after 1005 (nearest_double (201 / 20)))\<bar> > (1 / 2 :: rat)"
    by (simp_all add: b)
  have 2: "submitted (timer_timeout (long_after 1009 (nearest_double (1009 / 100)))) =
     [\<lparr>job_video_file = Some ''film.mkv'', job_time_pos = 1009,
       job_mouse_x = nearest_double (1009 / 100)\<rparr>]"
    using hover_debounce [of long_start "''film.mkv''" 10 "long_after 1000 10"
        "201 / 20" "long_after 1005 (nearest_double (201 / 20))"
        "1009 / 100" "long_after 1009 (nearest_double (1009 / 100))"]
      b(1,2) n long_moves lf m(2)
    by (simp add: b)
  have 3: "submitted (timer_timeout (request_all hover_start [(10, 10), (12, 48), (11, 45 / 4)])) =
     [\<lparr>job_video_file = Some ''film.mkv'', job_time_pos = 11, job_mouse_x = 45 / 4\<rparr>]"
    using hover_debounce [of hover_start _ _ _ _ _ _ _ "[(10, 10), (12, 48), (11, 45 / 4)]"] m(1)
    by (simp add: a)
  show ?thesis using 1 2 3 by simp
qed

text \<open>
  The claim C7 expects one job for timestamp 10.09 in the hover scenario; the job the
  code submits is for another timestamp.
\<close>

theorem hover_scenario_counterexample: "submitted_times hover_scenario \<noteq> [1009 / 100]"
  by (simp add: hover_scenario_jobs submitted_times_def)


end
